theory Spec2Isabelle
  imports Complex_Main "HOL-Library.Sublist"
begin

section \<open>Python values\<close>

text \<open>
  A Python \<open>str\<close> is a sequence of Unicode code points, so it is modelled as a list of
  natural numbers; \<open>py ''abc''\<close> is the Python literal \<open>"abc"\<close>. Python floats are
  idealised as real numbers (no rounding, no NaN, no infinities); every comparison of
  the source against an integer threshold is exact on floats as well.
\<close>

type_synonym pystr = "nat list"

definition py :: "string \<Rightarrow> pystr" where
  "py s = map of_char s"

text \<open>\<open>a.startswith(p)\<close> and \<open>w in s\<close> on strings.\<close>

definition startswith :: "pystr \<Rightarrow> pystr \<Rightarrow> bool" where
  "startswith s p = (take (length p) s = p)"

fun str_in :: "pystr \<Rightarrow> pystr \<Rightarrow> bool" where
  "str_in w [] = (w = [])"
| "str_in w (c # cs) = (startswith (c # cs) w \<or> str_in w cs)"

text \<open>\<open>str(n)\<close> for an integer: the decimal digits, with a minus sign when negative.\<close>

fun digits :: "nat \<Rightarrow> pystr" where
  "digits n = (if n < 10 then [48 + n] else digits (n div 10) @ [48 + n mod 10])"

definition str_int :: "int \<Rightarrow> pystr" where
  "str_int i = (if i < 0 then 45 # digits (nat (- i)) else digits (nat i))"

section \<open>Python string methods and rounding\<close>

text \<open>
  \<open>str.strip()\<close> removes from both ends the code points that \<open>str.isspace\<close>
  accepts; \<open>py_isspace\<close> lists them.
\<close>

definition py_isspace :: "nat \<Rightarrow> bool" where
  "py_isspace c =
     ((9 \<le> c \<and> c \<le> 13) \<or> (28 \<le> c \<and> c \<le> 32) \<or> c = 133 \<or> c = 160 \<or> c = 5760
      \<or> (8192 \<le> c \<and> c \<le> 8202) \<or> c = 8232 \<or> c = 8233 \<or> c = 8239 \<or> c = 8287
      \<or> c = 12288)"

definition py_strip :: "pystr \<Rightarrow> pystr" where
  "py_strip s = rev (dropWhile py_isspace (rev (dropWhile py_isspace s)))"

text \<open>
  \<open>str.lower\<close> and \<open>str.title\<close> follow the interpreter's Unicode case tables (the
  Kelvin sign U+212A lower-cases to \<open>k\<close>), and \<open>round(x, 2)\<close> acts on a binary float:
  on a Python float it is the builtin, on a NumPy float it is NumPy's own. None of
  the three is code of the repository, and none is determined by code points and
  real numbers alone, so they are parameters of the model: \<open>str_lower\<close>, \<open>str_title\<close>
  and \<open>rounding\<close>. Nothing is assumed of the two string methods. Of rounding the
  model assumes what both roundings do on the numbers a float holds exactly together
  with their hundredfold, the reals standing for such floats: a value between two
  whole numbers stays between them, so a whole number (and a Python \<open>int\<close>) is
  returned as it is.
\<close>

datatype float_kind = PyFloat | NpFloat64

typedef rounder =
  "{r :: float_kind \<Rightarrow> real \<Rightarrow> real.
      \<forall>k x n. (of_int n \<le> x \<longrightarrow> of_int n \<le> r k x) \<and> (x \<le> of_int n \<longrightarrow> r k x \<le> of_int n)}"
  by (rule exI [of _ "\<lambda>k x. x"]) simp

record pylib =
  str_lower :: "pystr \<Rightarrow> pystr"
  str_title :: "pystr \<Rightarrow> pystr"
  rounding :: rounder

definition round2 :: "pylib \<Rightarrow> float_kind \<Rightarrow> real \<Rightarrow> real" where
  "round2 L k x = Rep_rounder (rounding L) k x"

subsection \<open>An instance for running the model\<close>

text \<open>
  For concrete runs the parameters are instantiated by \<open>ascii_lib\<close>. Its case
  mappings act on the ASCII letters and leave every other code point as it is; they
  agree with Python on a string whose cased characters are all ASCII letters (the
  runs below use ASCII, Devanagari and Telugu text only). Its rounding is half-even
  rounding of the real number to two decimals; it agrees with \<open>round(x, 2)\<close>
  wherever the number is not a tie, as in the runs below.
\<close>

definition lower_cp :: "nat \<Rightarrow> nat" where
  "lower_cp c = (if 65 \<le> c \<and> c \<le> 90 then c + 32 else c)"

definition upper_cp :: "nat \<Rightarrow> nat" where
  "upper_cp c = (if 97 \<le> c \<and> c \<le> 122 then c - 32 else c)"

definition is_cased :: "nat \<Rightarrow> bool" where
  "is_cased c = ((65 \<le> c \<and> c \<le> 90) \<or> (97 \<le> c \<and> c \<le> 122))"

definition ascii_lower :: "pystr \<Rightarrow> pystr" where
  "ascii_lower s = map lower_cp s"

fun title_from :: "bool \<Rightarrow> pystr \<Rightarrow> pystr" where
  "title_from prev_cased [] = []"
| "title_from prev_cased (c # cs) =
     (if prev_cased then lower_cp c else upper_cp c) # title_from (is_cased c) cs"

definition ascii_title :: "pystr \<Rightarrow> pystr" where
  "ascii_title s = title_from False s"

definition round_half_even :: "real \<Rightarrow> int" where
  "round_half_even x =
     (let f = \<lfloor>x\<rfloor>; d = x - of_int f in
      if d < 1 / 2 then f else if d > 1 / 2 then f + 1 else if even f then f else f + 1)"

definition decimal_round2 :: "real \<Rightarrow> real" where
  "decimal_round2 x = of_int (round_half_even (x * 100)) / 100"

definition decimal_rounder :: rounder where
  "decimal_rounder = Abs_rounder (\<lambda>k. decimal_round2)"

definition ascii_lib :: pylib where
  "ascii_lib = \<lparr>str_lower = ascii_lower, str_title = ascii_title, rounding = decimal_rounder\<rparr>"

section \<open>The LLM gateway wrapper (emergentintegrations/llm/chat.py)\<close>

record message =
  role :: pystr
  content :: pystr

record UserMessage =
  msg_text :: pystr

record LlmChat =
  api_key :: pystr
  session_id :: pystr
  system_message :: pystr
  model :: pystr
  history :: "message list"

text \<open>\<open>LlmChat.__init__\<close> and \<open>with_model\<close>.\<close>

definition LlmChat_init :: "pystr \<Rightarrow> pystr \<Rightarrow> pystr \<Rightarrow> LlmChat" where
  "LlmChat_init key sid sysmsg =
     \<lparr>api_key = key, session_id = sid, system_message = sysmsg, model = py ''gpt-4o'',
      history = [\<lparr>role = py ''system'', content = sysmsg\<rparr>]\<rparr>"

definition with_model :: "LlmChat \<Rightarrow> pystr \<Rightarrow> pystr \<Rightarrow> LlmChat" where
  "with_model self provider m = self\<lparr>model := m\<rparr>"

text \<open>
  The outbound request: URL, headers in insertion order, and the JSON payload. The
  payload's \<open>messages\<close> entry is the history list itself, serialised when the request
  is sent.
\<close>

record payload =
  p_model :: pystr
  p_messages :: "message list"
  p_temperature :: real
  p_max_tokens :: int

record http_request =
  url :: pystr
  headers :: "(pystr \<times> pystr) list"
  json_body :: payload

text \<open>
  What \<open>client.post\<close> does is outside the program: it either raises (the argument is
  \<open>str(e)\<close>), or yields a response with a status code, a body text, and the result of
  \<open>response.json()['choices'][0]['message']['content']\<close>, which itself either raises
  (invalid JSON, a missing key) or is the assistant's text.
\<close>

datatype http_outcome =
    Raised pystr
  | Response (status_code: int) (body_text: pystr) (body_content: "pystr + pystr")

text \<open>
  The result of one call: the returned string, the chat object after the call, the
  POST requests issued in order, and the lines given to \<open>logger.error\<close>.
\<close>

record send_result =
  returned :: pystr
  chat :: LlmChat
  posts :: "http_request list"
  logged :: "pystr list"

definition mock_response :: pystr where
  "mock_response =
     py ''I am a mock AI assistant. Please provide a valid API Key in .env to get real responses.''"

text \<open>Lines 34 to 54 of \<open>send_message\<close>: headers, payload and endpoint.\<close>

definition build_request :: "LlmChat \<Rightarrow> http_request" where
  "build_request self =
     (let hdrs = [(py ''Authorization'', py ''Bearer '' @ api_key self),
                  (py ''Content-Type'', py ''application/json'')];
          pl = \<lparr>p_model = model self, p_messages = history self,
                p_temperature = 0.7, p_max_tokens = 1000\<rparr>
      in if startswith (api_key self) (py ''sk-or-v1'') then
           \<lparr>url = py ''https://openrouter.ai/api/v1/chat/completions'',
            headers = hdrs @ [(py ''HTTP-Referer'', py ''https://github.com/AgroBot/AgroBot''),
                              (py ''X-Title'', py ''AgroBot'')],
            json_body = (if model self = py ''gpt-4o''
                         then pl\<lparr>p_model := py ''openai/gpt-4o''\<rparr> else pl)\<rparr>
         else
           \<lparr>url = py ''https://api.openai.com/v1/chat/completions'',
            headers = hdrs, json_body = pl\<rparr>)"

text \<open>The \<open>except Exception as e\<close> handler of \<open>send_message\<close>.\<close>

definition on_exception :: "LlmChat \<Rightarrow> http_request \<Rightarrow> pystr \<Rightarrow> send_result" where
  "on_exception self req e =
     \<lparr>returned = py ''Sorry, I am having trouble connecting to the server. Error: '' @ e,
      chat = self, posts = [req],
      logged = [py ''Error sending message: '' @ e]\<rparr>"

definition send_message ::
  "(http_request \<Rightarrow> http_outcome) \<Rightarrow> LlmChat \<Rightarrow> UserMessage \<Rightarrow> send_result" where
  "send_message post self0 msg =
     (let self = self0\<lparr>history := history self0 @ [\<lparr>role = py ''user'', content = msg_text msg\<rparr>]\<rparr>
      in if api_key self = [] \<or> api_key self = py ''your_key_here'' then
           \<lparr>returned = mock_response,
            chat = self\<lparr>history := history self
                          @ [\<lparr>role = py ''assistant'', content = mock_response\<rparr>]\<rparr>,
            posts = [], logged = []\<rparr>
         else
           (let req = build_request self in
            case post req of
              Raised e \<Rightarrow> on_exception self req e
            | Response code txt body \<Rightarrow>
                if code \<noteq> 200 then
                  (let error_msg = py ''API Error ('' @ str_int code @ py ''): '' @ txt in
                   \<lparr>returned = py ''I encountered an error connecting to the AI service. Details: ''
                                 @ error_msg,
                    chat = self, posts = [req], logged = [error_msg]\<rparr>)
                else
                  (case body of
                     Inl e \<Rightarrow> on_exception self req e
                   | Inr c \<Rightarrow>
                       \<lparr>returned = c,
                        chat = self\<lparr>history := history self
                                      @ [\<lparr>role = py ''assistant'', content = c\<rparr>]\<rparr>,
                        posts = [req], logged = []\<rparr>)))"

text \<open>
  Vocabulary for the statements below: the history entry of a user message, the chat
  object right after line 26 has appended it, the key test of line 28, and the two
  failures of the POST that the method answers with an error string.
\<close>

definition user_entry :: "UserMessage \<Rightarrow> message" where
  "user_entry m = \<lparr>role = py ''user'', content = msg_text m\<rparr>"

definition with_user :: "LlmChat \<Rightarrow> UserMessage \<Rightarrow> LlmChat" where
  "with_user c m = c\<lparr>history := history c @ [user_entry m]\<rparr>"

definition has_key :: "LlmChat \<Rightarrow> bool" where
  "has_key c = (\<not> (api_key c = [] \<or> api_key c = py ''your_key_here''))"

definition post_failed :: "http_outcome \<Rightarrow> bool" where
  "post_failed out = (case out of Raised e \<Rightarrow> True | Response code txt body \<Rightarrow> code \<noteq> 200)"

text \<open>Concrete chats and network behaviours used to exercise the theorems.\<close>

definition chat_demo :: LlmChat where
  "chat_demo = with_model (LlmChat_init (py ''sk-test'') (py ''s1'') (py ''be brief''))
                 (py ''openai'') (py ''gpt-4o'')"

definition chat_nokey :: LlmChat where
  "chat_nokey = LlmChat_init (py ''your_key_here'') (py ''s1'') (py ''be brief'')"

definition post_503 :: "http_request \<Rightarrow> http_outcome" where
  "post_503 req = Response 503 (py ''busy'') (Inl (py ''no json''))"

definition post_timeout :: "http_request \<Rightarrow> http_outcome" where
  "post_timeout req = Raised (py ''timed out'')"

section \<open>Language detection (server.py, detect\_language)\<close>

definition is_telugu :: "nat \<Rightarrow> bool" where
  "is_telugu c = (0x0C00 \<le> c \<and> c \<le> 0x0C7F)"

definition is_devanagari :: "nat \<Rightarrow> bool" where
  "is_devanagari c = (0x0900 \<le> c \<and> c \<le> 0x097F)"

definition hindi_words :: "pystr list" where
  "hindi_words = [py ''kya'', py ''hai'', py ''mera'', py ''meri'', py ''kaise'', py ''karo'',
                  py ''karna'', py ''fasal'', py ''kheti'', py ''pani'', py ''baarish'']"

text \<open>The loop over \<open>hindi_words\<close>, which returns at the first word found.\<close>

fun hindi_word_loop :: "pystr list \<Rightarrow> pystr \<Rightarrow> pystr" where
  "hindi_word_loop [] text_lower = py ''en''"
| "hindi_word_loop (word # ws) text_lower =
     (if str_in word text_lower then py ''hi'' else hindi_word_loop ws text_lower)"

text \<open>
  The two shares are quotients of character counts compared with 0.15. On reals
  the test is \<open>15 * total < 100 * count\<close>; Python's float division gives the same
  answer for every string of fewer than \<open>10 ^ 14\<close> characters, since a share other
  than 3/20 differs from it by at least \<open>1 / (20 * total)\<close>.
\<close>

definition detect_language :: "pylib \<Rightarrow> pystr \<Rightarrow> pystr" where
  "detect_language L txt =
     (let telugu_chars = length (filter is_telugu txt);
          hindi_chars = length (filter is_devanagari txt);
          total = length txt
      in if total = 0 then py ''en''
         else if real telugu_chars / real total > 0.15 then py ''te''
         else if real hindi_chars / real total > 0.15 then py ''hi''
         else hindi_word_loop hindi_words (str_lower L txt))"

text \<open>Sample inputs: a Telugu word, a Devanagari word, Romanized Hindi, English.\<close>

definition sample_telugu :: pystr where
  "sample_telugu = [0x0C35, 0x0C30, 0x0C3F]"

definition sample_devanagari :: pystr where
  "sample_devanagari = [0x0927, 0x093E, 0x0928]"

section \<open>The weather proxy (weather\_service.py)\<close>

record coords =
  lat :: real
  lon :: real

record state_location = coords +
  city :: pystr

text \<open>The two tables, in the order in which the source lists (and Python iterates) them.\<close>

definition INDIA_LOCATIONS :: "(pystr \<times> state_location) list" where
  "INDIA_LOCATIONS =
     [(py ''andhra pradesh'', \<lparr>lat = 16.5062, lon = 80.648, city = py ''Vijayawada''\<rparr>),
      (py ''telangana'', \<lparr>lat = 17.385, lon = 78.4867, city = py ''Hyderabad''\<rparr>),
      (py ''punjab'', \<lparr>lat = 30.7333, lon = 76.7794, city = py ''Chandigarh''\<rparr>),
      (py ''haryana'', \<lparr>lat = 30.7333, lon = 76.7794, city = py ''Chandigarh''\<rparr>),
      (py ''uttar pradesh'', \<lparr>lat = 26.8467, lon = 80.9462, city = py ''Lucknow''\<rparr>),
      (py ''maharashtra'', \<lparr>lat = 19.076, lon = 72.8777, city = py ''Mumbai''\<rparr>),
      (py ''madhya pradesh'', \<lparr>lat = 23.2599, lon = 77.4126, city = py ''Bhopal''\<rparr>),
      (py ''gujarat'', \<lparr>lat = 23.0225, lon = 72.5714, city = py ''Ahmedabad''\<rparr>),
      (py ''rajasthan'', \<lparr>lat = 26.9124, lon = 75.7873, city = py ''Jaipur''\<rparr>),
      (py ''karnataka'', \<lparr>lat = 12.9716, lon = 77.5946, city = py ''Bengaluru''\<rparr>),
      (py ''tamil nadu'', \<lparr>lat = 13.0827, lon = 80.2707, city = py ''Chennai''\<rparr>),
      (py ''west bengal'', \<lparr>lat = 22.5726, lon = 88.3639, city = py ''Kolkata''\<rparr>),
      (py ''bihar'', \<lparr>lat = 25.5941, lon = 85.1376, city = py ''Patna''\<rparr>),
      (py ''odisha'', \<lparr>lat = 20.2961, lon = 85.8245, city = py ''Bhubaneswar''\<rparr>),
      (py ''kerala'', \<lparr>lat = 8.5241, lon = 76.9366, city = py ''Thiruvananthapuram''\<rparr>),
      (py ''assam'', \<lparr>lat = 26.1445, lon = 91.7362, city = py ''Guwahati''\<rparr>),
      (py ''jharkhand'', \<lparr>lat = 23.3441, lon = 85.3096, city = py ''Ranchi''\<rparr>),
      (py ''chhattisgarh'', \<lparr>lat = 21.2514, lon = 81.6296, city = py ''Raipur''\<rparr>),
      (py ''uttarakhand'', \<lparr>lat = 30.3165, lon = 78.0322, city = py ''Dehradun''\<rparr>),
      (py ''himachal pradesh'', \<lparr>lat = 31.1048, lon = 77.1734, city = py ''Shimla''\<rparr>)]"

definition DISTRICT_COORDS :: "(pystr \<times> coords) list" where
  "DISTRICT_COORDS =
     [(py ''guntur'', \<lparr>lat = 16.3067, lon = 80.4365\<rparr>),
      (py ''krishna'', \<lparr>lat = 16.61, lon = 80.7214\<rparr>),
      (py ''east godavari'', \<lparr>lat = 17.0, lon = 82.0\<rparr>),
      (py ''west godavari'', \<lparr>lat = 16.9174, lon = 81.3399\<rparr>),
      (py ''kurnool'', \<lparr>lat = 15.8281, lon = 78.0373\<rparr>),
      (py ''anantapur'', \<lparr>lat = 14.6819, lon = 77.6006\<rparr>),
      (py ''karimnagar'', \<lparr>lat = 18.4386, lon = 79.1288\<rparr>),
      (py ''warangal'', \<lparr>lat = 17.9784, lon = 79.5941\<rparr>),
      (py ''nizamabad'', \<lparr>lat = 18.6725, lon = 78.0941\<rparr>),
      (py ''khammam'', \<lparr>lat = 17.2473, lon = 80.1514\<rparr>),
      (py ''ludhiana'', \<lparr>lat = 30.901, lon = 75.8573\<rparr>),
      (py ''amritsar'', \<lparr>lat = 31.634, lon = 74.8723\<rparr>),
      (py ''jalandhar'', \<lparr>lat = 31.326, lon = 75.5762\<rparr>),
      (py ''patiala'', \<lparr>lat = 30.3398, lon = 76.3869\<rparr>),
      (py ''meerut'', \<lparr>lat = 28.9845, lon = 77.7064\<rparr>),
      (py ''lucknow'', \<lparr>lat = 26.8467, lon = 80.9462\<rparr>),
      (py ''agra'', \<lparr>lat = 27.1767, lon = 78.0081\<rparr>),
      (py ''varanasi'', \<lparr>lat = 25.3176, lon = 82.9739\<rparr>),
      (py ''gorakhpur'', \<lparr>lat = 26.7606, lon = 83.3732\<rparr>),
      (py ''nagpur'', \<lparr>lat = 21.1458, lon = 79.0882\<rparr>),
      (py ''pune'', \<lparr>lat = 18.5204, lon = 73.8567\<rparr>),
      (py ''nashik'', \<lparr>lat = 19.9975, lon = 73.7898\<rparr>),
      (py ''kolhapur'', \<lparr>lat = 16.705, lon = 74.2433\<rparr>),
      (py ''ahmedabad'', \<lparr>lat = 23.0225, lon = 72.5714\<rparr>),
      (py ''rajkot'', \<lparr>lat = 22.3039, lon = 70.8022\<rparr>),
      (py ''surat'', \<lparr>lat = 21.1702, lon = 72.8311\<rparr>),
      (py ''jaipur'', \<lparr>lat = 26.9124, lon = 75.7873\<rparr>),
      (py ''jodhpur'', \<lparr>lat = 26.2389, lon = 73.0243\<rparr>),
      (py ''bikaner'', \<lparr>lat = 28.0229, lon = 73.3119\<rparr>),
      (py ''belgaum'', \<lparr>lat = 15.8497, lon = 74.4977\<rparr>),
      (py ''mysore'', \<lparr>lat = 12.2958, lon = 76.6394\<rparr>),
      (py ''dharwad'', \<lparr>lat = 15.4589, lon = 75.0078\<rparr>),
      (py ''chennai'', \<lparr>lat = 13.0827, lon = 80.2707\<rparr>),
      (py ''coimbatore'', \<lparr>lat = 11.0168, lon = 76.9558\<rparr>),
      (py ''madurai'', \<lparr>lat = 9.9252, lon = 78.1198\<rparr>),
      (py ''thanjavur'', \<lparr>lat = 10.787, lon = 79.1378\<rparr>)]"

text \<open>
  The two loops of \<open>get_coordinates\<close> have the same shape: walk the table in order
  and return the value of the first key that occurs in the location.
\<close>

fun first_match :: "(pystr \<times> 'a) list \<Rightarrow> pystr \<Rightarrow> 'a option" where
  "first_match [] location_lower = None"
| "first_match ((k, v) # rest) location_lower =
     (if str_in k location_lower then Some v else first_match rest location_lower)"

definition get_coordinates :: "pylib \<Rightarrow> pystr \<Rightarrow> coords option" where
  "get_coordinates L location =
     (let location_lower = py_strip (str_lower L location) in
      case first_match DISTRICT_COORDS location_lower of
        Some c \<Rightarrow> Some c
      | None \<Rightarrow>
          (case first_match INDIA_LOCATIONS location_lower of
             Some d \<Rightarrow> Some \<lparr>lat = lat d, lon = lon d\<rparr>
           | None \<Rightarrow> None))"

text \<open>A table key that neither starts nor ends with white space.\<close>

definition trimmed :: "pystr \<Rightarrow> bool" where
  "trimmed k = (k \<noteq> [] \<and> \<not> py_isspace (hd k) \<and> \<not> py_isspace (last k))"

text \<open>
  The JSON that Open-Meteo answers with. A key of an object may be absent, may hold
  \<open>null\<close>, or may hold a value; array elements are numbers or \<open>null\<close>. Values are
  assumed to have the JSON types the API documents (numbers, strings, arrays), and
  the \<open>daily\<close> object to have no keys besides the six that the request asks for.
\<close>

datatype 'a jfield = Absent | Null | Val 'a

record om_current =
  temperature_2m :: "real jfield"
  relative_humidity_2m :: "real jfield"
  precipitation :: "real jfield"
  weather_code :: "int jfield"
  wind_speed_10m :: "real jfield"

record om_daily =
  daily_time :: "pystr list jfield"
  daily_temperature_2m_max :: "real option list jfield"
  daily_temperature_2m_min :: "real option list jfield"
  daily_precipitation_sum :: "real option list jfield"
  daily_precipitation_probability_max :: "real option list jfield"
  daily_weather_code :: "int option list jfield"

record om_data =
  om_current :: "om_current jfield"
  om_daily :: "om_daily jfield"

datatype error = KeyError | TypeError | IndexError | AttributeError | ValueError
  | HTTPError | ReError | PredictError

text \<open>
  \<open>client.get\<close>, \<open>raise_for_status\<close> and \<open>response.json()\<close> are the remote exchange:
  given the coordinates sent, they raise or yield the decoded JSON.
\<close>

type_synonym weather_api = "coords \<Rightarrow> error + om_data"

text \<open>\<open>d.get(key)\<close>, \<open>d.get(key, default)\<close> and \<open>d[key][i]\<close> on such objects.\<close>

definition jget :: "'a jfield \<Rightarrow> 'a option" where
  "jget f = (case f of Absent \<Rightarrow> None | Null \<Rightarrow> None | Val v \<Rightarrow> Some v)"

definition jget_default :: "'a jfield \<Rightarrow> 'a \<Rightarrow> 'a option" where
  "jget_default f d = (case f of Absent \<Rightarrow> Some d | Null \<Rightarrow> None | Val v \<Rightarrow> Some v)"

definition subscript :: "'a list jfield \<Rightarrow> nat \<Rightarrow> error + 'a" where
  "subscript f i =
     (case f of
        Absent \<Rightarrow> Inl KeyError
      | Null \<Rightarrow> Inl TypeError
      | Val xs \<Rightarrow> if i < length xs then Inr (xs ! i) else Inl IndexError)"

definition conditions :: "(int \<times> pystr) list" where
  "conditions =
     [(0, py ''Clear sky''), (1, py ''Mainly clear''), (2, py ''Partly cloudy''),
      (3, py ''Overcast''), (45, py ''Foggy''), (48, py ''Depositing rime fog''),
      (51, py ''Light drizzle''), (53, py ''Moderate drizzle''), (55, py ''Dense drizzle''),
      (61, py ''Slight rain''), (63, py ''Moderate rain''), (65, py ''Heavy rain''),
      (71, py ''Slight snow''), (73, py ''Moderate snow''), (75, py ''Heavy snow''),
      (80, py ''Slight rain showers''), (81, py ''Moderate rain showers''),
      (82, py ''Violent rain showers''), (95, py ''Thunderstorm''),
      (96, py ''Thunderstorm with slight hail''), (99, py ''Thunderstorm with heavy hail'')]"

definition get_weather_condition :: "int option \<Rightarrow> pystr" where
  "get_weather_condition code =
     (case code of
        None \<Rightarrow> py ''Unknown''
      | Some c \<Rightarrow> (case map_of conditions c of None \<Rightarrow> py ''Unknown'' | Some s \<Rightarrow> s))"

record current_info =
  cur_temperature_c :: "real option"
  cur_humidity_percent :: "real option"
  cur_precipitation_mm :: "real option"
  cur_wind_speed_kmh :: "real option"
  cur_condition :: pystr

record forecast_day =
  fc_date :: pystr
  fc_max_temp_c :: "real option"
  fc_min_temp_c :: "real option"
  fc_precipitation_mm :: "real option"
  fc_rain_probability :: "real option"
  fc_condition :: pystr

text \<open>
  An advisory carries its type, its severity and three message literals under the
  keys \<open>message_en\<close>, \<open>message_hi\<close> and \<open>message_te\<close>. The literals (mostly Hindi and
  Telugu text) are not transcribed: a message is referred to by the advisory type,
  the key, and the seven-day rain total where the literal interpolates it.
\<close>

datatype message_text = MessageText pystr pystr "real option"

record advisory =
  adv_type :: pystr
  adv_severity :: pystr
  adv_messages :: "(pystr \<times> message_text) list"

definition make_advisory :: "pystr \<Rightarrow> pystr \<Rightarrow> real option \<Rightarrow> advisory" where
  "make_advisory ty sev rain =
     \<lparr>adv_type = ty, adv_severity = sev,
      adv_messages = [(py ''message_en'', MessageText ty (py ''message_en'') rain),
                      (py ''message_hi'', MessageText ty (py ''message_hi'') rain),
                      (py ''message_te'', MessageText ty (py ''message_te'') rain)]\<rparr>"

record weather_info =
  wi_location :: pystr
  wi_coordinates :: coords
  wi_current :: current_info
  wi_forecast :: "forecast_day list"
  wi_agricultural_advisory :: "advisory list"

text \<open>One round of the forecast loop, and the loop over \<open>range(min(7, len(time)))\<close>.\<close>

definition forecast_entry :: "om_daily \<Rightarrow> nat \<Rightarrow> error + forecast_day" where
  "forecast_entry daily i =
     (case subscript (daily_time daily) i of Inl e \<Rightarrow> Inl e | Inr d \<Rightarrow>
      case subscript (daily_temperature_2m_max daily) i of Inl e \<Rightarrow> Inl e | Inr tmax \<Rightarrow>
      case subscript (daily_temperature_2m_min daily) i of Inl e \<Rightarrow> Inl e | Inr tmin \<Rightarrow>
      case subscript (daily_precipitation_sum daily) i of Inl e \<Rightarrow> Inl e | Inr p \<Rightarrow>
      case subscript (daily_precipitation_probability_max daily) i of Inl e \<Rightarrow> Inl e | Inr pp \<Rightarrow>
      case subscript (daily_weather_code daily) i of Inl e \<Rightarrow> Inl e | Inr code \<Rightarrow>
        Inr \<lparr>fc_date = d, fc_max_temp_c = tmax, fc_min_temp_c = tmin,
             fc_precipitation_mm = p, fc_rain_probability = pp,
             fc_condition = get_weather_condition code\<rparr>)"

fun forecast_loop :: "om_daily \<Rightarrow> nat list \<Rightarrow> forecast_day list \<Rightarrow> error + forecast_day list" where
  "forecast_loop daily [] acc = Inr acc"
| "forecast_loop daily (i # rest) acc =
     (case forecast_entry daily i of
        Inl e \<Rightarrow> Inl e
      | Inr day \<Rightarrow> forecast_loop daily rest (acc @ [day]))"

text \<open>
  \<open>_generate_agri_advisory\<close>. Comparing \<open>None\<close> with a number raises \<open>TypeError\<close>, so a
  missing temperature, humidity or wind speed makes the method raise.
\<close>

definition temperature_advisories :: "real \<Rightarrow> advisory list" where
  "temperature_advisories temp =
     (if temp > 40 then [make_advisory (py ''heat_stress'') (py ''high'') None]
      else if temp > 35 then [make_advisory (py ''heat_advisory'') (py ''medium'') None]
      else if temp < 10 then [make_advisory (py ''cold_advisory'') (py ''medium'') None]
      else [])"

definition rain_advisories :: "real \<Rightarrow> advisory list" where
  "rain_advisories total_rain_7days =
     (if total_rain_7days > 100
        then [make_advisory (py ''heavy_rain_warning'') (py ''high'') (Some total_rain_7days)]
      else if total_rain_7days > 50
        then [make_advisory (py ''rain_expected'') (py ''low'') (Some total_rain_7days)]
      else if total_rain_7days < 5
        then [make_advisory (py ''dry_spell'') (py ''medium'') None]
      else [])"

definition humidity_advisories :: "real \<Rightarrow> advisory list" where
  "humidity_advisories humidity =
     (if humidity > 85 then [make_advisory (py ''disease_risk'') (py ''medium'') None] else [])"

definition spray_advisories :: "real \<Rightarrow> advisory list" where
  "spray_advisories wind =
     (if wind < 10 then [make_advisory (py ''spray_favorable'') (py ''info'') None]
      else if wind > 20 then [make_advisory (py ''spray_unfavorable'') (py ''info'') None]
      else [])"

definition generate_agri_advisory :: "current_info \<Rightarrow> forecast_day list \<Rightarrow> error + advisory list" where
  "generate_agri_advisory cur forecast =
     (case cur_temperature_c cur of
        None \<Rightarrow> Inl TypeError
      | Some temp \<Rightarrow>
          (let a1 = temperature_advisories temp;
               total_rain_7days =
                 sum_list (map (\<lambda>f. case fc_precipitation_mm f of None \<Rightarrow> 0 | Some p \<Rightarrow> p)
                             (take 7 forecast));
               a2 = a1 @ rain_advisories total_rain_7days
           in case cur_humidity_percent cur of
                None \<Rightarrow> Inl TypeError
              | Some humidity \<Rightarrow>
                  (let a3 = a2 @ humidity_advisories humidity in
                   case cur_wind_speed_kmh cur of
                     None \<Rightarrow> Inl TypeError
                   | Some wind \<Rightarrow> Inr (a3 @ spray_advisories wind))))"

text \<open>
  The body of the \<open>try\<close> block of \<open>get_weather\<close>, from the request to the finished
  \<open>weather_info\<close>. An absent \<open>current\<close> or \<open>daily\<close> object reads as \<open>{}\<close>; a \<open>null\<close> one
  makes \<open>current.get\<close> raise, and skips the forecast loop.
\<close>

definition empty_current :: om_current where
  "empty_current = \<lparr>temperature_2m = Absent, relative_humidity_2m = Absent,
                     precipitation = Absent, weather_code = Absent, wind_speed_10m = Absent\<rparr>"

definition daily_is_empty :: "om_daily \<Rightarrow> bool" where
  "daily_is_empty d =
     (daily_time d = Absent \<and> daily_temperature_2m_max d = Absent
      \<and> daily_temperature_2m_min d = Absent \<and> daily_precipitation_sum d = Absent
      \<and> daily_precipitation_probability_max d = Absent \<and> daily_weather_code d = Absent)"

definition build_forecast :: "om_daily jfield \<Rightarrow> error + forecast_day list" where
  "build_forecast daily =
     (case daily of
        Absent \<Rightarrow> Inr []
      | Null \<Rightarrow> Inr []
      | Val d \<Rightarrow>
          if daily_is_empty d then Inr []
          else (case daily_time d of
                  Absent \<Rightarrow> Inr []
                | Null \<Rightarrow> Inl TypeError
                | Val ts \<Rightarrow> forecast_loop d [0 ..< min 7 (length ts)] []))"

definition get_weather_try :: "weather_api \<Rightarrow> pystr \<Rightarrow> coords \<Rightarrow> error + weather_info" where
  "get_weather_try api location cds =
     (case api cds of
        Inl e \<Rightarrow> Inl e
      | Inr data \<Rightarrow>
          (case om_current data of
             Null \<Rightarrow> Inl AttributeError
           | cur_field \<Rightarrow>
               (let current = (case cur_field of Val c \<Rightarrow> c | _ \<Rightarrow> empty_current);
                    cur = \<lparr>cur_temperature_c = jget (temperature_2m current),
                           cur_humidity_percent = jget (relative_humidity_2m current),
                           cur_precipitation_mm = jget (precipitation current),
                           cur_wind_speed_kmh = jget (wind_speed_10m current),
                           cur_condition =
                             get_weather_condition (jget_default (weather_code current) 0)\<rparr>
                in case build_forecast (om_daily data) of
                     Inl e \<Rightarrow> Inl e
                   | Inr forecast \<Rightarrow>
                       (case generate_agri_advisory cur forecast of
                          Inl e \<Rightarrow> Inl e
                        | Inr advisories \<Rightarrow>
                            Inr \<lparr>wi_location = location, wi_coordinates = cds,
                                 wi_current = cur, wi_forecast = forecast,
                                 wi_agricultural_advisory = advisories\<rparr>))))"

definition get_weather :: "pylib \<Rightarrow> weather_api \<Rightarrow> pystr \<Rightarrow> weather_info option" where
  "get_weather L api location =
     (case get_coordinates L location of
        None \<Rightarrow> None
      | Some cds \<Rightarrow>
          (case get_weather_try api location cds of
             Inl e \<Rightarrow> None
           | Inr info \<Rightarrow> Some info))"

text \<open>\<open>get_weather_advisory\<close>: the answer of the weather route.\<close>

record formatted_advisory =
  fa_type :: pystr
  fa_severity :: pystr
  fa_message :: "message_text option"

datatype weather_advisory =
    NoWeather (error: bool) (message: pystr)
  | Weather (error: bool) (wa_location: pystr) (wa_current: current_info)
      (forecast_7day: "forecast_day list") (advisories: "formatted_advisory list")
      (wa_data_source: pystr)

definition format_advisory :: "pystr \<Rightarrow> advisory \<Rightarrow> formatted_advisory" where
  "format_advisory lang_key a =
     \<lparr>fa_type = adv_type a, fa_severity = adv_severity a,
      fa_message = (case map_of (adv_messages a) lang_key of
                      Some m \<Rightarrow> Some m
                    | None \<Rightarrow> map_of (adv_messages a) (py ''message_en''))\<rparr>"

definition get_weather_advisory ::
  "pylib \<Rightarrow> weather_api \<Rightarrow> pystr \<Rightarrow> pystr \<Rightarrow> weather_advisory" where
  "get_weather_advisory L api location language =
     (case get_weather L api location of
        None \<Rightarrow> NoWeather True (py ''Could not fetch weather data for this location'')
      | Some weather \<Rightarrow>
          (let lang_key = py ''message_'' @ language in
           Weather False (wi_location weather) (wi_current weather) (wi_forecast weather)
             (map (format_advisory lang_key) (wi_agricultural_advisory weather))
             (py ''Open-Meteo Weather API'')))"

text \<open>Two remote behaviours for concrete runs: an outage, and a plain answer.\<close>

definition api_down :: weather_api where
  "api_down cds = Inl HTTPError"

definition api_ok :: weather_api where
  "api_ok cds =
     Inr \<lparr>om_current = Val \<lparr>temperature_2m = Val 31, relative_humidity_2m = Val 60,
                              precipitation = Val 0, weather_code = Val 1,
                              wind_speed_10m = Val 12\<rparr>,
          om_daily = Absent\<rparr>"

section \<open>The knowledge base (crop\_knowledge.py)\<close>

text \<open>
  Of each crop entry the model keeps the four keys that \<open>predict_yield_ml\<close> reads, and
  of each state entry the rainfall range; the other keys are static text that the
  function only passes through.
\<close>

record yield_range =
  yr_min :: real
  yr_max :: real
  yr_avg :: real

record crop_entry =
  optimal_soil :: "pystr list"
  fertilizer_recommendation :: "(pystr \<times> pystr) list"
  yield_range_kg_ha :: yield_range
  tips :: "pystr list"

record rainfall_range =
  rf_min :: real
  rf_max :: real
  rf_avg :: real

record state_entry =
  st_rainfall_mm :: rainfall_range

definition CROP_KNOWLEDGE :: "(pystr \<times> crop_entry) list" where
  "CROP_KNOWLEDGE =
     [(py ''chickpea'',
       \<lparr>optimal_soil = [py ''Black'', py ''Loamy'', py ''Sandy loam''],
        fertilizer_recommendation = [(py ''N'', py ''20 kg/ha''), (py ''P'', py ''40 kg/ha''), (py ''K'', py ''20 kg/ha'')],
        yield_range_kg_ha = \<lparr>yr_min = 800, yr_max = 2000, yr_avg = 1200\<rparr>,
        tips =
          [py ''Seed treatment with Rhizobium culture increases yield by 15-20%'',
           py ''Avoid waterlogging - chickpea is highly sensitive'',
           py ''One irrigation at flowering critical for pod filling'',
           py ''Use wilt-resistant varieties in endemic areas'']\<rparr>),
      (py ''pigeon_pea'',
       \<lparr>optimal_soil = [py ''Loamy'', py ''Sandy loam'', py ''Red''],
        fertilizer_recommendation = [(py ''N'', py ''20 kg/ha''), (py ''P'', py ''50 kg/ha''), (py ''K'', py ''20 kg/ha'')],
        yield_range_kg_ha = \<lparr>yr_min = 600, yr_max = 1500, yr_avg = 900\<rparr>,
        tips =
          [py ''Use ICPL 87119 (Asha) for wilt resistance'',
           py ''Nipping at 30 days promotes branching'',
           py ''IPM with pheromone traps reduces pod borer by 40%'',
           py ''Intercrop with sorghum or cotton for better returns'']\<rparr>),
      (py ''lentil'',
       \<lparr>optimal_soil = [py ''Loamy'', py ''Clay loam'', py ''Alluvial''],
        fertilizer_recommendation = [(py ''N'', py ''20 kg/ha''), (py ''P'', py ''40 kg/ha''), (py ''K'', py ''20 kg/ha'')],
        yield_range_kg_ha = \<lparr>yr_min = 600, yr_max = 1500, yr_avg = 900\<rparr>,
        tips =
          [py ''Conserve soil moisture with mulching'',
           py ''Avoid late sowing - reduces yield significantly'',
           py ''Spray 2% urea at flowering for better grain filling'',
           py ''Harvest when 80% pods turn brown'']\<rparr>),
      (py ''moong'',
       \<lparr>optimal_soil = [py ''Loamy'', py ''Sandy loam'', py ''Alluvial''],
        fertilizer_recommendation = [(py ''N'', py ''20 kg/ha''), (py ''P'', py ''40 kg/ha''), (py ''K'', py ''20 kg/ha'')],
        yield_range_kg_ha = \<lparr>yr_min = 500, yr_max = 1200, yr_avg = 800\<rparr>,
        tips =
          [py ''Use virus-resistant varieties (IPM 02-3, SML 668)'',
           py ''Short duration crop - ideal for crop intensification'',
           py ''Yellow sticky traps reduce whitefly by 60%'',
           py ''Pick mature pods every 3-4 days for multiple harvests'']\<rparr>),
      (py ''urad'',
       \<lparr>optimal_soil = [py ''Loamy'', py ''Clay loam'', py ''Black''],
        fertilizer_recommendation = [(py ''N'', py ''20 kg/ha''), (py ''P'', py ''40 kg/ha''), (py ''K'', py ''20 kg/ha'')],
        yield_range_kg_ha = \<lparr>yr_min = 500, yr_max = 1200, yr_avg = 750\<rparr>,
        tips =
          [py ''Select YMV resistant varieties'',
           py ''Avoid waterlogging at all costs'',
           py ''Seed treatment with Trichoderma prevents root rot'',
           py ''Harvest when 80% pods mature to avoid shattering'']\<rparr>),
      (py ''mustard'',
       \<lparr>optimal_soil = [py ''Loamy'', py ''Sandy loam'', py ''Alluvial''],
        fertilizer_recommendation = [(py ''N'', py ''80 kg/ha''), (py ''P'', py ''40 kg/ha''), (py ''K'', py ''40 kg/ha''), (py ''Sulphur'', py ''40 kg/ha'')],
        yield_range_kg_ha = \<lparr>yr_min = 1000, yr_max = 2500, yr_avg = 1500\<rparr>,
        tips =
          [py ''Apply sulphur for higher oil content (increases by 2-3%)'',
           py ''Control aphids before flowering stage'',
           py ''Thiram seed treatment prevents seedling diseases'',
           py ''Harvest when 75% siliquae turn yellow'']\<rparr>),
      (py ''sunflower'',
       \<lparr>optimal_soil = [py ''Loamy'', py ''Clay loam'', py ''Black''],
        fertilizer_recommendation = [(py ''N'', py ''60 kg/ha''), (py ''P'', py ''60 kg/ha''), (py ''K'', py ''30 kg/ha'')],
        yield_range_kg_ha = \<lparr>yr_min = 1000, yr_max = 2000, yr_avg = 1400\<rparr>,
        tips =
          [py ''Use hybrids for 30-40% higher yield'',
           py ''Boron application improves seed setting'',
           py ''Bird scaring needed during maturity'',
           py ''Harvest when back of head turns yellow'']\<rparr>),
      (py ''castor'',
       \<lparr>optimal_soil = [py ''Sandy loam'', py ''Loamy'', py ''Red''],
        fertilizer_recommendation = [(py ''N'', py ''60 kg/ha''), (py ''P'', py ''40 kg/ha''), (py ''K'', py ''20 kg/ha'')],
        yield_range_kg_ha = \<lparr>yr_min = 1000, yr_max = 2500, yr_avg = 1500\<rparr>,
        tips =
          [py ''India is world's largest castor producer'',
           py ''Use GCH-7 hybrid for high yield'',
           py ''IPM reduces pest management cost by 50%'',
           py ''Harvest spikes when capsules turn brown'']\<rparr>),
      (py ''sesame'',
       \<lparr>optimal_soil = [py ''Sandy loam'', py ''Loamy'', py ''Alluvial''],
        fertilizer_recommendation = [(py ''N'', py ''40 kg/ha''), (py ''P'', py ''20 kg/ha''), (py ''K'', py ''20 kg/ha'')],
        yield_range_kg_ha = \<lparr>yr_min = 300, yr_max = 800, yr_avg = 450\<rparr>,
        tips =
          [py ''Drought tolerant - ideal for rainfed areas'',
           py ''White seeded varieties fetch premium'',
           py ''Harvest when lower capsules start browning'',
           py ''Stack harvested plants upside down to dry'']\<rparr>),
      (py ''tomato'',
       \<lparr>optimal_soil = [py ''Loamy'', py ''Sandy loam'', py ''Red''],
        fertilizer_recommendation = [(py ''N'', py ''120 kg/ha''), (py ''P'', py ''60 kg/ha''), (py ''K'', py ''60 kg/ha'')],
        yield_range_kg_ha = \<lparr>yr_min = 20000, yr_max = 50000, yr_avg = 30000\<rparr>,
        tips =
          [py ''Stake plants for better quality fruits'',
           py ''Drip irrigation increases yield by 30%'',
           py ''Use TLCV resistant hybrids in endemic areas'',
           py ''Harvest at breaker stage for distant markets'']\<rparr>),
      (py ''potato'',
       \<lparr>optimal_soil = [py ''Sandy loam'', py ''Loamy'', py ''Alluvial''],
        fertilizer_recommendation = [(py ''N'', py ''150 kg/ha''), (py ''P'', py ''100 kg/ha''), (py ''K'', py ''120 kg/ha'')],
        yield_range_kg_ha = \<lparr>yr_min = 15000, yr_max = 35000, yr_avg = 22000\<rparr>,
        tips =
          [py ''Use certified seed tubers only'',
           py ''Earthing up twice is essential'',
           py ''Stop irrigation 10 days before harvest'',
           py ''Cure tubers before storage'']\<rparr>),
      (py ''onion'',
       \<lparr>optimal_soil = [py ''Loamy'', py ''Clay loam'', py ''Alluvial''],
        fertilizer_recommendation = [(py ''N'', py ''100 kg/ha''), (py ''P'', py ''50 kg/ha''), (py ''K'', py ''50 kg/ha''), (py ''Sulphur'', py ''30 kg/ha'')],
        yield_range_kg_ha = \<lparr>yr_min = 15000, yr_max = 30000, yr_avg = 20000\<rparr>,
        tips =
          [py ''Stop irrigation 15 days before harvest'',
           py ''Cure bulbs for 7-10 days before storage'',
           py ''Proper ventilation in storage reduces losses'',
           py ''Grade before selling for better prices'']\<rparr>),
      (py ''chilli'',
       \<lparr>optimal_soil = [py ''Loamy'', py ''Sandy loam'', py ''Black''],
        fertilizer_recommendation = [(py ''N'', py ''100 kg/ha''), (py ''P'', py ''50 kg/ha''), (py ''K'', py ''50 kg/ha'')],
        yield_range_kg_ha = \<lparr>yr_min = 8000, yr_max = 20000, yr_avg = 12000\<rparr>,
        tips =
          [py ''Use virus-free seedlings from protected nursery'',
           py ''Mulching reduces thrips and conserves moisture'',
           py ''Pick red chillies at 75% color development'',
           py ''Solar drying gives better color and quality'']\<rparr>),
      (py ''brinjal'',
       \<lparr>optimal_soil = [py ''Loamy'', py ''Clay loam'', py ''Alluvial''],
        fertilizer_recommendation = [(py ''N'', py ''100 kg/ha''), (py ''P'', py ''50 kg/ha''), (py ''K'', py ''50 kg/ha'')],
        yield_range_kg_ha = \<lparr>yr_min = 25000, yr_max = 50000, yr_avg = 35000\<rparr>,
        tips =
          [py ''Use pheromone traps @ 5/acre for borer monitoring'',
           py ''Clip and destroy affected shoots weekly'',
           py ''Harvest at right maturity - shiny fruits'',
           py ''Avoid waterlogging to prevent bacterial wilt'']\<rparr>),
      (py ''okra'',
       \<lparr>optimal_soil = [py ''Loamy'', py ''Sandy loam'', py ''Alluvial''],
        fertilizer_recommendation = [(py ''N'', py ''100 kg/ha''), (py ''P'', py ''60 kg/ha''), (py ''K'', py ''50 kg/ha'')],
        yield_range_kg_ha = \<lparr>yr_min = 8000, yr_max = 15000, yr_avg = 10000\<rparr>,
        tips =
          [py ''Use YVMV resistant varieties'',
           py ''Pick tender fruits every 2-3 days'',
           py ''Seed treatment with Imidacloprid prevents early pest attack'',
           py ''Summer crop fetches premium prices'']\<rparr>),
      (py ''rice'',
       \<lparr>optimal_soil = [py ''Alluvial'', py ''Clay'', py ''Loamy''],
        fertilizer_recommendation = [(py ''N'', py ''120 kg/ha''), (py ''P'', py ''60 kg/ha''), (py ''K'', py ''40 kg/ha'')],
        yield_range_kg_ha = \<lparr>yr_min = 2500, yr_max = 6500, yr_avg = 4000\<rparr>,
        tips =
          [py ''Maintain 5cm water level during vegetative stage'',
           py ''Apply nitrogen in 3 splits: basal, tillering, panicle initiation'',
           py ''Use zinc sulfate @ 25 kg/ha in zinc deficient soils'',
           py ''Drain field 15 days before harvest'']\<rparr>),
      (py ''wheat'',
       \<lparr>optimal_soil = [py ''Alluvial'', py ''Loamy'', py ''Clay loam''],
        fertilizer_recommendation = [(py ''N'', py ''120 kg/ha''), (py ''P'', py ''60 kg/ha''), (py ''K'', py ''40 kg/ha'')],
        yield_range_kg_ha = \<lparr>yr_min = 2500, yr_max = 5500, yr_avg = 3500\<rparr>,
        tips =
          [py ''Timely sowing before November 25 for optimal yield'',
           py ''First irrigation at 21 days is critical for crown root development'',
           py ''Apply nitrogen in 2-3 splits'',
           py ''Watch for yellow rust in North India during February'']\<rparr>),
      (py ''cotton'',
       \<lparr>optimal_soil = [py ''Black'', py ''Alluvial''],
        fertilizer_recommendation = [(py ''N'', py ''60-80 kg/ha''), (py ''P'', py ''30 kg/ha''), (py ''K'', py ''30 kg/ha'')],
        yield_range_kg_ha = \<lparr>yr_min = 1200, yr_max = 2200, yr_avg = 1500\<rparr>,
        tips =
          [py ''Use Bt cotton varieties for bollworm resistance'',
           py ''Maintain proper plant population (11,000-13,000 plants/ha)'',
           py ''Install pheromone traps for pink bollworm monitoring'',
           py ''Apply potash for better fiber quality'']\<rparr>),
      (py ''sugarcane'',
       \<lparr>optimal_soil = [py ''Alluvial'', py ''Loamy'', py ''Black''],
        fertilizer_recommendation = [(py ''N'', py ''250-300 kg/ha''), (py ''P'', py ''60-80 kg/ha''), (py ''K'', py ''60 kg/ha'')],
        yield_range_kg_ha = \<lparr>yr_min = 50000, yr_max = 100000, yr_avg = 75000\<rparr>,
        tips =
          [py ''Use disease-free seed material from registered nurseries'',
           py ''Earthing up twice at 90 and 120 days after planting'',
           py ''Stop irrigation 3 weeks before harvest for better sugar recovery'',
           py ''Ratoon management can give 80% of plant crop yield'']\<rparr>),
      (py ''groundnut'',
       \<lparr>optimal_soil = [py ''Sandy loam'', py ''Red'', py ''Loamy''],
        fertilizer_recommendation = [(py ''N'', py ''10-20 kg/ha''), (py ''P'', py ''40 kg/ha''), (py ''K'', py ''40 kg/ha''), (py ''Gypsum'', py ''500 kg/ha at flowering'')],
        yield_range_kg_ha = \<lparr>yr_min = 1000, yr_max = 2500, yr_avg = 1500\<rparr>,
        tips =
          [py ''Apply gypsum at flowering for better pod filling'',
           py ''Maintain soil moisture during pegging stage'',
           py ''Harvest at 75-80% mature pods'',
           py ''Dry pods to 8-10% moisture before storage'']\<rparr>),
      (py ''soybean'',
       \<lparr>optimal_soil = [py ''Black'', py ''Alluvial'', py ''Loamy''],
        fertilizer_recommendation = [(py ''N'', py ''20-30 kg/ha (starter)''), (py ''P'', py ''60-80 kg/ha''), (py ''K'', py ''40 kg/ha'')],
        yield_range_kg_ha = \<lparr>yr_min = 1500, yr_max = 2500, yr_avg = 2000\<rparr>,
        tips =
          [py ''Treat seeds with Rhizobium culture before sowing'',
           py ''Ensure good drainage - waterlogging is fatal'',
           py ''Use certified virus-free seeds'',
           py ''Harvest when 95% pods turn brown'']\<rparr>),
      (py ''maize'',
       \<lparr>optimal_soil = [py ''Loamy'', py ''Alluvial'', py ''Black''],
        fertilizer_recommendation = [(py ''N'', py ''120 kg/ha''), (py ''P'', py ''60 kg/ha''), (py ''K'', py ''40 kg/ha'')],
        yield_range_kg_ha = \<lparr>yr_min = 2500, yr_max = 6000, yr_avg = 4000\<rparr>,
        tips =
          [py ''Critical water requirement during tasseling and silking'',
           py ''Use single cross hybrids for higher yield'',
           py ''Watch for fall armyworm - spray at first sign'',
           py ''Harvest at 20-25% grain moisture'']\<rparr>),
      (py ''bajra'',
       \<lparr>optimal_soil = [py ''Sandy'', py ''Sandy loam'', py ''Light soils''],
        fertilizer_recommendation = [(py ''N'', py ''40-60 kg/ha''), (py ''P'', py ''20 kg/ha''), (py ''K'', py ''20 kg/ha'')],
        yield_range_kg_ha = \<lparr>yr_min = 800, yr_max = 2000, yr_avg = 1200\<rparr>,
        tips =
          [py ''Best suited for arid and semi-arid regions'',
           py ''Sow with onset of monsoon'',
           py ''Use hybrid varieties for better yield'',
           py ''Good for intercropping with pulses'']\<rparr>),
      (py ''jowar'',
       \<lparr>optimal_soil = [py ''Black'', py ''Clay loam'', py ''Medium black''],
        fertilizer_recommendation = [(py ''N'', py ''80 kg/ha''), (py ''P'', py ''40 kg/ha''), (py ''K'', py ''40 kg/ha'')],
        yield_range_kg_ha = \<lparr>yr_min = 1000, yr_max = 3000, yr_avg = 1500\<rparr>,
        tips =
          [py ''Rabi jowar gives better grain quality'',
           py ''Deep black soils retain moisture for rabi season'',
           py ''Use shoot fly resistant varieties for kharif'',
           py ''Harvest at physiological maturity for fodder+grain'']\<rparr>)]"

definition STATE_AGRI_INFO :: "(pystr \<times> state_entry) list" where
  "STATE_AGRI_INFO =
     [(py ''andhra pradesh'', \<lparr>st_rainfall_mm = \<lparr>rf_min = 500, rf_max = 1200, rf_avg = 900\<rparr>\<rparr>),
      (py ''telangana'', \<lparr>st_rainfall_mm = \<lparr>rf_min = 700, rf_max = 1100, rf_avg = 900\<rparr>\<rparr>),
      (py ''punjab'', \<lparr>st_rainfall_mm = \<lparr>rf_min = 350, rf_max = 700, rf_avg = 500\<rparr>\<rparr>),
      (py ''uttar pradesh'', \<lparr>st_rainfall_mm = \<lparr>rf_min = 600, rf_max = 1200, rf_avg = 900\<rparr>\<rparr>),
      (py ''maharashtra'', \<lparr>st_rainfall_mm = \<lparr>rf_min = 500, rf_max = 2500, rf_avg = 1000\<rparr>\<rparr>),
      (py ''madhya pradesh'', \<lparr>st_rainfall_mm = \<lparr>rf_min = 750, rf_max = 1500, rf_avg = 1100\<rparr>\<rparr>),
      (py ''gujarat'', \<lparr>st_rainfall_mm = \<lparr>rf_min = 300, rf_max = 1000, rf_avg = 600\<rparr>\<rparr>),
      (py ''rajasthan'', \<lparr>st_rainfall_mm = \<lparr>rf_min = 150, rf_max = 600, rf_avg = 350\<rparr>\<rparr>),
      (py ''karnataka'', \<lparr>st_rainfall_mm = \<lparr>rf_min = 500, rf_max = 4000, rf_avg = 1200\<rparr>\<rparr>),
      (py ''tamil nadu'', \<lparr>st_rainfall_mm = \<lparr>rf_min = 600, rf_max = 1500, rf_avg = 950\<rparr>\<rparr>)]"

definition get_crop_info :: "pylib \<Rightarrow> pystr \<Rightarrow> crop_entry option" where
  "get_crop_info L crop_name = map_of CROP_KNOWLEDGE (py_strip (str_lower L crop_name))"

definition get_state_info :: "pylib \<Rightarrow> pystr \<Rightarrow> state_entry option" where
  "get_state_info L state_name = map_of STATE_AGRI_INFO (py_strip (str_lower L state_name))"

section \<open>Yield prediction (server.py, predict\_yield\_ml)\<close>

definition district_state_map :: "(pystr \<times> pystr) list" where
  "district_state_map =
     [(py ''guntur'', py ''andhra pradesh''), (py ''krishna'', py ''andhra pradesh''), (py ''nellore'', py ''andhra pradesh''),
      (py ''karimnagar'', py ''telangana''), (py ''warangal'', py ''telangana''), (py ''nizamabad'', py ''telangana''),
      (py ''ludhiana'', py ''punjab''), (py ''amritsar'', py ''punjab''), (py ''jalandhar'', py ''punjab''),
      (py ''meerut'', py ''uttar pradesh''), (py ''lucknow'', py ''uttar pradesh''), (py ''agra'', py ''uttar pradesh''),
      (py ''nagpur'', py ''maharashtra''), (py ''pune'', py ''maharashtra''), (py ''nashik'', py ''maharashtra''),
      (py ''indore'', py ''madhya pradesh''), (py ''bhopal'', py ''madhya pradesh''), (py ''ujjain'', py ''madhya pradesh''),
      (py ''ahmedabad'', py ''gujarat''), (py ''rajkot'', py ''gujarat''), (py ''surat'', py ''gujarat''),
      (py ''jaipur'', py ''rajasthan''), (py ''jodhpur'', py ''rajasthan''), (py ''bikaner'', py ''rajasthan''),
      (py ''bengaluru'', py ''karnataka''), (py ''mysore'', py ''karnataka''), (py ''belgaum'', py ''karnataka''),
      (py ''chennai'', py ''tamil nadu''), (py ''coimbatore'', py ''tamil nadu''), (py ''madurai'', py ''tamil nadu''),
      (py ''kolkata'', py ''west bengal''), (py ''patna'', py ''bihar''), (py ''ranchi'', py ''jharkhand'')]"

text \<open>The second loop of \<open>get_state_from_location\<close>, over the state names.\<close>

fun first_in :: "pystr list \<Rightarrow> pystr \<Rightarrow> pystr option" where
  "first_in [] location_lower = None"
| "first_in (state # rest) location_lower =
     (if str_in state location_lower then Some state else first_in rest location_lower)"

definition get_state_from_location :: "pylib \<Rightarrow> pystr \<Rightarrow> pystr" where
  "get_state_from_location L loc =
     (let location_lower = str_lower L loc in
      case first_match district_state_map location_lower of
        Some state \<Rightarrow> state
      | None \<Rightarrow>
          (case first_in (map fst STATE_AGRI_INFO) location_lower of
             Some state \<Rightarrow> state
           | None \<Rightarrow> location_lower))"

record FarmInput =
  crop_type :: pystr
  soil_type :: pystr
  season :: pystr
  location :: pystr
  rainfall_mm :: "real option"
  irrigation_percent :: "real option"
  fertilizer_kg_ha :: "real option"
  temperature_c :: "real option"
  area_hectares :: "real option"

text \<open>
  \<open>x or default\<close> on an optional float: \<open>None\<close> and \<open>0.0\<close> are both falsy, so both
  give the default.
\<close>

definition py_or :: "real option \<Rightarrow> real \<Rightarrow> real" where
  "py_or x d = (case x of None \<Rightarrow> d | Some v \<Rightarrow> if v = 0 then d else v)"

text \<open>Lines 256 to 278: the defaults and the four effective inputs.\<close>

definition default_rainfall :: "pylib \<Rightarrow> FarmInput \<Rightarrow> real" where
  "default_rainfall L farm_input =
     (case get_state_info L (get_state_from_location L (location farm_input)) of
        Some state_info \<Rightarrow> rf_avg (st_rainfall_mm state_info)
      | None \<Rightarrow> 900)"

definition default_yield :: "pylib \<Rightarrow> FarmInput \<Rightarrow> real" where
  "default_yield L farm_input =
     (case get_crop_info L (crop_type farm_input) of
        Some crop_info \<Rightarrow> yr_avg (yield_range_kg_ha crop_info)
      | None \<Rightarrow> 3000)"

definition effective_rainfall :: "pylib \<Rightarrow> FarmInput \<Rightarrow> real" where
  "effective_rainfall L farm_input =
     py_or (rainfall_mm farm_input) (default_rainfall L farm_input)"

definition effective_irrigation :: "FarmInput \<Rightarrow> real" where
  "effective_irrigation farm_input = py_or (irrigation_percent farm_input) 60"

definition effective_fertilizer :: "FarmInput \<Rightarrow> real" where
  "effective_fertilizer farm_input = py_or (fertilizer_kg_ha farm_input) 150"

definition effective_temperature :: "FarmInput \<Rightarrow> real" where
  "effective_temperature farm_input = py_or (temperature_c farm_input) 27"

text \<open>
  What lines 54 to 67 load at start-up. Either all four artifacts are bound and
  \<open>ML_MODEL_LOADED\<close> is true, or none is and it is false: the module state is an
  optional record. A fitted \<open>LabelEncoder\<close> is its \<open>classes_\<close> array; the model is
  its \<open>predict\<close> function on one feature row, which may raise; the test score is
  kept with the kind of float it was pickled as; of the CSV only the three columns
  that are read are kept.
\<close>

record encoders =
  enc_Crop :: "pystr list"
  enc_Soil_Type :: "pystr list"
  enc_Season :: "pystr list"

record crop_row =
  row_Crop :: pystr
  row_State :: pystr
  row_Yield_Kg_Ha :: real

record ml_artifacts =
  yield_model :: "real list \<Rightarrow> error + real"
  encoders :: encoders
  test_score :: real
  score_kind :: float_kind
  crop_data :: "crop_row list"

text \<open>
  \<open>LabelEncoder.transform([label])[0]\<close>: the position of the label among the classes,
  \<open>ValueError\<close> for a label that was not seen when fitting.
\<close>

fun index_of :: "pystr \<Rightarrow> pystr list \<Rightarrow> nat" where
  "index_of x [] = 0"
| "index_of x (c # cs) = (if x = c then 0 else Suc (index_of x cs))"

definition transform :: "pystr list \<Rightarrow> pystr \<Rightarrow> error + real" where
  "transform classes label =
     (if label \<in> set classes then Inr (real (index_of label classes)) else Inl ValueError)"

text \<open>The three guarded encodings of lines 286 to 302.\<close>

definition encode_crop :: "pylib \<Rightarrow> encoders \<Rightarrow> FarmInput \<Rightarrow> error + real" where
  "encode_crop L enc farm_input =
     (let crop_key = py_strip (str_lower L (crop_type farm_input)) in
      if crop_key \<in> set (enc_Crop enc) then transform (enc_Crop enc) (str_title L crop_key)
      else Inr 0)"

definition encode_soil :: "pylib \<Rightarrow> encoders \<Rightarrow> FarmInput \<Rightarrow> error + real" where
  "encode_soil L enc farm_input =
     (let soil_key = py_strip (str_lower L (soil_type farm_input)) in
      if soil_key \<in> set (map (str_lower L) (enc_Soil_Type enc))
      then transform (enc_Soil_Type enc) (str_title L soil_key)
      else Inr 0)"

definition encode_season :: "pylib \<Rightarrow> encoders \<Rightarrow> FarmInput \<Rightarrow> error + real" where
  "encode_season L enc farm_input =
     (let season_key = py_strip (str_lower L (season farm_input)) in
      if season_key \<in> set (map (str_lower L) (enc_Season enc))
      then transform (enc_Season enc) (str_title L season_key)
      else Inr 0)"

text \<open>
  The body of the \<open>try\<close> block, lines 285 to 316: it raises, or yields the model's
  prediction (a NumPy float) and the confidence. \<open>min(0.92, s)\<close> returns \<open>s\<close> itself
  when it is the smaller, and the literal otherwise; the confidence carries the kind
  of the one returned.
\<close>

definition confidence_of :: "ml_artifacts \<Rightarrow> real \<times> float_kind" where
  "confidence_of m =
     (if test_score m < 0.92 then (test_score m, score_kind m) else (0.92, PyFloat))"

definition ml_try ::
  "pylib \<Rightarrow> ml_artifacts \<Rightarrow> FarmInput \<Rightarrow> error + (real \<times> real \<times> float_kind)" where
  "ml_try L m farm_input =
     (case encode_crop L (encoders m) farm_input of Inl e \<Rightarrow> Inl e | Inr crop_encoded \<Rightarrow>
      case encode_soil L (encoders m) farm_input of Inl e \<Rightarrow> Inl e | Inr soil_encoded \<Rightarrow>
      case encode_season L (encoders m) farm_input of Inl e \<Rightarrow> Inl e | Inr season_encoded \<Rightarrow>
        (let state_encoded = 0;
             district_encoded = 0;
             features = [state_encoded, district_encoded, crop_encoded, season_encoded,
                         soil_encoded, effective_rainfall L farm_input,
                         effective_irrigation farm_input, effective_fertilizer farm_input,
                         effective_temperature farm_input]
         in case yield_model m features of
              Inl e \<Rightarrow> Inl e
            | Inr y \<Rightarrow> Inr (y, confidence_of m)))"

text \<open>The knowledge-based calculation of the \<open>except\<close> handler, lines 322 to 331.\<close>

definition knowledge_based_estimate :: "crop_entry \<Rightarrow> real \<Rightarrow> real \<Rightarrow> real \<Rightarrow> real" where
  "knowledge_based_estimate crop_info irrigation rainfall fertilizer =
     (let yield_range = yield_range_kg_ha crop_info;
          base_yield = yr_avg yield_range;
          irrigation_factor = 1.0 + (irrigation - 50) / 100 * 0.3;
          rainfall_factor = (if 600 < rainfall \<and> rainfall < 1200 then 1.0 else 0.85);
          fertilizer_factor = 1.0 + (fertilizer - 100) / 200 * 0.2;
          predicted_yield = base_yield * irrigation_factor * rainfall_factor * fertilizer_factor
      in max (yr_min yield_range) (min (yr_max yield_range) predicted_yield))"

text \<open>
  Lines 280 to 331: the predicted yield and the confidence, each with the kind of
  number it is. The model's output is a NumPy float; the default yield is an \<open>int\<close>
  and the knowledge-based estimate an \<open>int\<close> or a Python float, which \<open>round\<close> treats
  alike where it matters (an \<open>int\<close> is returned as it is).
\<close>

definition estimate_yield ::
  "pylib \<Rightarrow> ml_artifacts option \<Rightarrow> FarmInput \<Rightarrow> (real \<times> float_kind) \<times> (real \<times> float_kind)" where
  "estimate_yield L g farm_input =
     (case g of
        None \<Rightarrow> ((default_yield L farm_input, PyFloat), (0.75, PyFloat))
      | Some m \<Rightarrow>
          (case ml_try L m farm_input of
             Inr (predicted_yield, confidence) \<Rightarrow> ((predicted_yield, NpFloat64), confidence)
           | Inl e \<Rightarrow>
               (case get_crop_info L (crop_type farm_input) of
                  Some crop_info \<Rightarrow>
                    ((knowledge_based_estimate crop_info (effective_irrigation farm_input)
                        (effective_rainfall L farm_input) (effective_fertilizer farm_input),
                      PyFloat),
                     (0.75, PyFloat))
                | None \<Rightarrow> ((default_yield L farm_input, PyFloat), (0.75, PyFloat)))))"

text \<open>Lines 337 to 358: the risk score with its reasons, and the level.\<close>

definition risk_assessment :: "real \<Rightarrow> real \<Rightarrow> real \<Rightarrow> nat \<times> pystr list" where
  "risk_assessment irrigation rainfall fertilizer =
     (let s0 = (0, []);
          s1 = (if irrigation < 40
                then (fst s0 + 2, snd s0 @ [py ''Low irrigation coverage'']) else s0);
          s2 = (if rainfall < 500
                then (fst s1 + 2, snd s1 @ [py ''Insufficient rainfall''])
                else if rainfall > 1500
                then (fst s1 + 1, snd s1 @ [py ''Excess rainfall - flood risk''])
                else s1);
          s3 = (if fertilizer < 80
                then (fst s2 + 1, snd s2 @ [py ''Low fertilizer application'']) else s2)
      in s3)"

definition risk_level_of :: "nat \<Rightarrow> pystr" where
  "risk_level_of risk_score =
     (if risk_score \<ge> 3 then py ''High''
      else if risk_score \<ge> 1 then py ''Medium''
      else py ''Low'')"

text \<open>
  Lines 361 to 370: the national and state averages from the CSV. \<open>str.contains\<close>
  takes its argument as a regular expression; compiling it is the library's work and
  is a parameter: \<open>None\<close> when the pattern is rejected (the call raises), otherwise
  the test whether the pattern is found in a string.
\<close>

type_synonym regex = "pystr \<Rightarrow> (pystr \<Rightarrow> bool) option"

definition mean :: "real list \<Rightarrow> real" where
  "mean xs = sum_list xs / real (length xs)"

definition yield_averages ::
  "pylib \<Rightarrow> regex \<Rightarrow> ml_artifacts option \<Rightarrow> FarmInput \<Rightarrow> pystr \<Rightarrow> error + (real option \<times> real option)" where
  "yield_averages L re g farm_input state_name =
     (case g of
        None \<Rightarrow> Inr (None, None)
      | Some m \<Rightarrow>
          (let crop_match = filter (\<lambda>r. str_lower L (row_Crop r) = str_lower L (crop_type farm_input))
                              (crop_data m)
           in if crop_match = [] then Inr (None, None)
              else
                (let national_avg = mean (map row_Yield_Kg_Ha crop_match) in
                 case re (take 5 state_name) of
                   None \<Rightarrow> Inl ReError
                 | Some found_in \<Rightarrow>
                     (let state_match = filter (\<lambda>r. found_in (str_lower L (row_State r))) crop_match
                      in Inr (if state_match = [] then None
                              else Some (mean (map row_Yield_Kg_Ha state_match)),
                              Some national_avg)))))"

text \<open>
  Texts built by f-strings that interpolate numbers are kept as their pieces: a
  literal, a number shown by \<open>str\<close>, or a number shown with format \<open>.0f\<close>.
\<close>

datatype piece = Lit pystr | Num real | Num0 real

type_synonym ftext = "piece list"

record influence =
  factor :: pystr
  impact :: pystr
  detail :: ftext

text \<open>Lines 373 to 395: the influential factors.\<close>

definition influential ::
  "pylib \<Rightarrow> FarmInput \<Rightarrow> crop_entry option \<Rightarrow> real \<Rightarrow> real \<Rightarrow> real \<Rightarrow> influence list" where
  "influential L farm_input crop_info irrigation rainfall fertilizer =
     [if irrigation \<ge> 70 then
        \<lparr>factor = py ''Irrigation'', impact = py ''Positive'',
         detail = [Num irrigation, Lit (py ''% coverage - excellent water availability'')]\<rparr>
      else if irrigation \<ge> 40 then
        \<lparr>factor = py ''Irrigation'', impact = py ''Moderate'',
         detail = [Num irrigation, Lit (py ''% coverage - adequate but can improve'')]\<rparr>
      else
        \<lparr>factor = py ''Irrigation'', impact = py ''Negative'',
         detail = [Num irrigation, Lit (py ''% coverage - insufficient, consider bore wells'')]\<rparr>]
     @ [if 600 < rainfall \<and> rainfall < 1200 then
          \<lparr>factor = py ''Rainfall'', impact = py ''Positive'',
           detail = [Num rainfall, Lit (py ''mm - optimal range'')]\<rparr>
        else
          \<lparr>factor = py ''Rainfall'', impact = py ''Risk'',
           detail = [Num rainfall,
                     Lit (py ''mm - '' @ (if rainfall < 600 then py ''below'' else py ''above'')
                          @ py '' optimal'')]\<rparr>]
     @ (case crop_info of
          None \<Rightarrow> []
        | Some ci \<Rightarrow>
            [if str_title L (soil_type farm_input) \<in> set (optimal_soil ci) then
               \<lparr>factor = py ''Soil Type'', impact = py ''Positive'',
                detail = [Lit (soil_type farm_input @ py '' is ideal for ''
                               @ crop_type farm_input)]\<rparr>
             else
               \<lparr>factor = py ''Soil Type'', impact = py ''Moderate'',
                detail = [Lit (soil_type farm_input @ py '' - consider soil amendments'')]\<rparr>])
     @ [\<lparr>factor = py ''Fertilizer'',
         impact = (if fertilizer \<ge> 120 then py ''Positive'' else py ''Moderate''),
         detail = [Num fertilizer, Lit (py '' kg/ha applied'')]\<rparr>]"

text \<open>Lines 398 to 413: the recommendations.\<close>

definition dict_get :: "(pystr \<times> pystr) list \<Rightarrow> pystr \<Rightarrow> pystr \<Rightarrow> pystr" where
  "dict_get d k dflt = (case map_of d k of Some v \<Rightarrow> v | None \<Rightarrow> dflt)"

definition recommend :: "crop_entry option \<Rightarrow> real \<Rightarrow> pystr \<Rightarrow> pystr list" where
  "recommend crop_info irrigation risk_level =
     (case crop_info of
        None \<Rightarrow> []
      | Some ci \<Rightarrow>
          (let fert_rec = fertilizer_recommendation ci in
           [py ''Recommended fertilizer: N-'' @ dict_get fert_rec (py ''N'') (py ''120 kg/ha'')
            @ py '', P-'' @ dict_get fert_rec (py ''P'') (py ''60 kg/ha'')
            @ py '', K-'' @ dict_get fert_rec (py ''K'') (py ''40 kg/ha'')]
           @ (if tips ci \<noteq> [] then take 2 (tips ci) else [])))
     @ (if irrigation < 50
        then [py ''Consider installing drip irrigation or micro-sprinklers to improve water efficiency'']
        else [])
     @ (if risk_level = py ''High''
        then [[9888, 65039]
              @ py '' High risk detected - Consider crop insurance under PMFBY scheme'']
        else [])
     @ [py ''Get soil tested under Soil Health Card scheme for precise fertilizer recommendations'']"

text \<open>
  Lines 416 to 423: the comparison with the national average. A predicted yield of
  zero can only come from the model, as a NumPy float; dividing by it gives
  infinity, which format \<open>.0f\<close> shows as \<open>inf\<close>.
\<close>

definition compare_national :: "real option \<Rightarrow> real \<Rightarrow> ftext" where
  "compare_national national_avg predicted_yield =
     (case national_avg of
        None \<Rightarrow> []
      | Some n \<Rightarrow>
          if n = 0 then []
          else if predicted_yield > n * 1.1 then
            [Lit (py ''Your predicted yield is ''), Num0 (((predicted_yield / n) - 1) * 100),
             Lit (py ''% above national average (''), Num0 n, Lit (py '' kg/ha)'')]
          else if predicted_yield < n * 0.9 then
            [Lit (py ''Your predicted yield is ''),
             (if predicted_yield = 0 then Lit (py ''inf'')
              else Num0 (((n / predicted_yield) - 1) * 100)),
             Lit (py ''% below national average (''), Num0 n, Lit (py '' kg/ha)'')]
          else
            [Lit (py ''Your predicted yield is near national average (''), Num0 n,
             Lit (py '' kg/ha)'')])"

text \<open>
  \<open>round(x, 2) if x else None\<close> on the averages, which pandas computes as NumPy
  floats.
\<close>

definition round_if_truthy :: "pylib \<Rightarrow> real option \<Rightarrow> real option" where
  "round_if_truthy L x =
     (case x of
        None \<Rightarrow> None
      | Some v \<Rightarrow> if v = 0 then None else Some (round2 L NpFloat64 v))"

record MLPrediction =
  predicted_yield_kg_ha :: real
  predicted_yield_quintal_acre :: real
  confidence_score :: real
  risk_level :: pystr
  state_avg_yield :: "real option"
  national_avg_yield :: "real option"
  influential_factors :: "influence list"
  recommendations :: "pystr list"
  crop_info :: "crop_entry option"
  comparison :: ftext
  data_source :: pystr

text \<open>
  \<open>predict_yield_ml\<close>. The only statement outside the \<open>try\<close> block that can raise is
  the \<open>str.contains\<close> of line 368; the warning that the handler logs is not part of
  the model.
\<close>

definition predict_yield_ml ::
  "pylib \<Rightarrow> regex \<Rightarrow> ml_artifacts option \<Rightarrow> FarmInput \<Rightarrow> error + MLPrediction" where
  "predict_yield_ml L re g farm_input =
     (let crop_info = get_crop_info L (crop_type farm_input);
          state_name = get_state_from_location L (location farm_input);
          rainfall = effective_rainfall L farm_input;
          irrigation = effective_irrigation farm_input;
          fertilizer = effective_fertilizer farm_input;
          ((predicted_yield, yield_kind), (confidence, confidence_kind)) =
            estimate_yield L g farm_input;
          predicted_yield_quintal_acre = predicted_yield * 0.0404686 / 10;
          (risk_score, risk_factors) = risk_assessment irrigation rainfall fertilizer;
          risk_level = risk_level_of risk_score
      in case yield_averages L re g farm_input state_name of
           Inl e \<Rightarrow> Inl e
         | Inr (state_avg, national_avg) \<Rightarrow>
             Inr \<lparr>predicted_yield_kg_ha = round2 L yield_kind predicted_yield,
                  predicted_yield_quintal_acre = round2 L yield_kind predicted_yield_quintal_acre,
                  confidence_score = round2 L confidence_kind confidence,
                  risk_level = risk_level,
                  state_avg_yield = round_if_truthy L state_avg,
                  national_avg_yield = round_if_truthy L national_avg,
                  influential_factors =
                    take 5 (influential L farm_input crop_info irrigation rainfall fertilizer),
                  recommendations = take 5 (recommend crop_info irrigation risk_level),
                  crop_info = crop_info,
                  comparison = compare_national national_avg predicted_yield,
                  data_source = py ''Government of India Agricultural Statistics (Ministry of Agriculture & Farmers Welfare, 2023)''\<rparr>)"

text \<open>A well-formed yield range: whole numbers, the minimum not above the maximum.\<close>

definition range_ok :: "crop_entry \<Rightarrow> bool" where
  "range_ok ci = (yr_min (yield_range_kg_ha ci) \<in> \<int> \<and> yr_max (yield_range_kg_ha ci) \<in> \<int>
                  \<and> yr_min (yield_range_kg_ha ci) \<le> yr_max (yield_range_kg_ha ci))"

text \<open>
  Concrete surroundings for running the function: a pattern compiler for patterns
  without metacharacters; loaded artifacts whose model adds up its feature row, whose
  soil encoder knows one lower-case class, and whose data has rice rows only; and
  three farm inputs.
\<close>

definition re_literal :: regex where
  "re_literal pat = Some (\<lambda>s. str_in pat s)"

definition artifacts_demo :: ml_artifacts where
  "artifacts_demo =
     \<lparr>yield_model = (\<lambda>features. Inr (sum_list features)),
      encoders = \<lparr>enc_Crop = [py ''Rice'', py ''Wheat''],
                  enc_Soil_Type = [py ''Alluvial'', py ''black''],
                  enc_Season = [py ''Kharif'', py ''Rabi'']\<rparr>,
      test_score = 0.88,
      score_kind = PyFloat,
      crop_data = [\<lparr>row_Crop = py ''Rice'', row_State = py ''Punjab'', row_Yield_Kg_Ha = 4200\<rparr>,
                   \<lparr>row_Crop = py ''Rice'', row_State = py ''Kerala'', row_Yield_Kg_Ha = 2800\<rparr>]\<rparr>"


definition farm_black_soil :: FarmInput where
  "farm_black_soil =
     \<lparr>crop_type = py ''rice'', soil_type = py ''black'', season = py ''kharif'',
      location = py ''Punjab'', rainfall_mm = Some 800, irrigation_percent = Some 100,
      fertilizer_kg_ha = Some 1100, temperature_c = Some 30, area_hectares = Some 2\<rparr>"

definition farm_dry :: FarmInput where
  "farm_dry =
     \<lparr>crop_type = py ''rice'', soil_type = py ''clay'', season = py ''kharif'',
      location = py ''Punjab'', rainfall_mm = Some 400, irrigation_percent = Some 30,
      fertilizer_kg_ha = Some 100, temperature_c = None, area_hectares = None\<rparr>"

section \<open>Sessions, messages and the database (server.py)\<close>

text \<open>
  The documents of the two MongoDB collections. Field names carry a prefix because
  several classes share them (\<open>id\<close>, \<open>language\<close>, \<open>session_id\<close>); timestamps are
  clock readings; a farm context is a free-form map, kept as key-value pairs.
\<close>

record Session =
  sess_id :: pystr
  sess_language :: pystr
  sess_farm_context :: "(pystr \<times> pystr) list option"
  sess_created_at :: nat
  sess_updated_at :: nat

record ChatMessage =
  cm_id :: pystr
  cm_session_id :: pystr
  cm_role :: pystr
  cm_content :: pystr
  cm_language :: pystr
  cm_timestamp :: nat

record ChatRequest =
  rq_session_id :: pystr
  rq_message :: pystr
  rq_language :: "pystr option"
  rq_farm_context :: "(pystr \<times> pystr) list option"

record database =
  sessions :: "Session list"
  messages :: "ChatMessage list"

text \<open>The commands that the handlers send to the database.\<close>

datatype db_command =
    Insert_one_session Session
  | Find_one_session pystr
  | Insert_many_messages "ChatMessage list"
  | Find_messages pystr

text \<open>
  What a handler draws from outside the program: two \<open>uuid4\<close> values, two readings
  of \<open>utcnow\<close>, and whether the database answers (a command raises when it does not).
\<close>

record ambient =
  uuid1 :: pystr
  uuid2 :: pystr
  utcnow1 :: nat
  utcnow2 :: nat
  db_up :: bool

text \<open>
  \<open>create_session\<close>: the session built by the field defaults, the one
  \<open>insert_one\<close>, whose failure is logged and swallowed, and the session returned.
\<close>

record created =
  cr_session :: Session
  cr_db :: database
  cr_issued :: "db_command list"

definition create_session :: "ambient \<Rightarrow> pystr \<Rightarrow> database \<Rightarrow> created" where
  "create_session amb lang db =
     (let session = \<lparr>sess_id = uuid1 amb, sess_language = lang, sess_farm_context = None,
                      sess_created_at = utcnow1 amb, sess_updated_at = utcnow2 amb\<rparr>
      in \<lparr>cr_session = session,
          cr_db = (if db_up amb then db\<lparr>sessions := sessions db @ [session]\<rparr> else db),
          cr_issued = [Insert_one_session session]\<rparr>)"

text \<open>\<open>get_session\<close>: one \<open>find_one\<close>; 404 when nothing matches.\<close>

datatype http_error = Not_found | Server_error

definition get_session :: "ambient \<Rightarrow> pystr \<Rightarrow> database \<Rightarrow> http_error + Session" where
  "get_session amb sid db =
     (if \<not> db_up amb then Inl Server_error
      else case find (\<lambda>s. sess_id s = sid) (sessions db) of
             None \<Rightarrow> Inl Not_found
           | Some s \<Rightarrow> Inr s)"

text \<open>
  The end of the \<open>chat\<close> handler, lines 545 and 592 to 608: the detected language,
  the two message documents, and the one \<open>insert_many\<close>, whose failure is logged and
  swallowed. The reply of the assistant comes from \<open>send_message\<close> on the enriched
  message and is taken as given.
\<close>

definition detected_language :: "pylib \<Rightarrow> ChatRequest \<Rightarrow> pystr" where
  "detected_language L request =
     (case rq_language request of
        None \<Rightarrow> detect_language L (rq_message request)
      | Some l \<Rightarrow> if l = [] then detect_language L (rq_message request) else l)"

definition store_chat ::
  "pylib \<Rightarrow> ambient \<Rightarrow> ChatRequest \<Rightarrow> pystr \<Rightarrow> database \<Rightarrow> database" where
  "store_chat L amb request response_text db =
     (let user_msg = \<lparr>cm_id = uuid1 amb, cm_session_id = rq_session_id request,
                       cm_role = py ''user'', cm_content = rq_message request,
                       cm_language = detected_language L request,
                       cm_timestamp = utcnow1 amb\<rparr>;
          assistant_msg = \<lparr>cm_id = uuid2 amb, cm_session_id = rq_session_id request,
                            cm_role = py ''assistant'', cm_content = response_text,
                            cm_language = detected_language L request,
                            cm_timestamp = utcnow2 amb\<rparr>
      in if db_up amb then db\<lparr>messages := messages db @ [user_msg, assistant_msg]\<rparr> else db)"

text \<open>
  The routes of the server and what each does to the database. \<open>Chat\<close> carries the
  assistant's reply, or \<open>None\<close> when the handler raised before storing. The routes
  gathered under \<open>No_database_route\<close> (the root, crops, states, schemes, language
  detection, model information, weather, speech to text, pest-image analysis, the
  chart data) and \<open>Predict\<close> contain no database statement.
\<close>

datatype api_call =
    Create_session pystr
  | Get_session pystr
  | Chat ChatRequest "pystr option"
  | Get_messages pystr
  | Predict FarmInput
  | No_database_route

definition db_after :: "pylib \<Rightarrow> ambient \<Rightarrow> api_call \<Rightarrow> database \<Rightarrow> database" where
  "db_after L amb call db =
     (case call of
        Create_session lang \<Rightarrow> cr_db (create_session amb lang db)
      | Get_session sid \<Rightarrow> db
      | Chat request reply \<Rightarrow>
          (case reply of None \<Rightarrow> db | Some response_text \<Rightarrow> store_chat L amb request response_text db)
      | Get_messages sid \<Rightarrow> db
      | Predict farm_input \<Rightarrow> db
      | No_database_route \<Rightarrow> db)"

fun run :: "pylib \<Rightarrow> (ambient \<times> api_call) list \<Rightarrow> database \<Rightarrow> database" where
  "run L [] db = db"
| "run L ((amb, call) # rest) db = run L rest (db_after L amb call db)"

text \<open>A small history for concrete runs.\<close>

definition amb_demo :: ambient where
  "amb_demo = \<lparr>uuid1 = py ''u-1'', uuid2 = py ''u-2'', utcnow1 = 100, utcnow2 = 101, db_up = True\<rparr>"

definition db_demo :: database where
  "db_demo =
     \<lparr>sessions = [\<lparr>sess_id = py ''u-0'', sess_language = py ''te'', sess_farm_context = None,
                    sess_created_at = 7, sess_updated_at = 7\<rparr>],
      messages = []\<rparr>"

definition calls_demo :: "(ambient \<times> api_call) list" where
  "calls_demo =
     [(amb_demo, Create_session (py ''hi'')),
      (amb_demo, Chat \<lparr>rq_session_id = py ''u-0'', rq_message = py ''meri fasal'',
                       rq_language = None, rq_farm_context = None\<rparr> (Some (py ''namaste''))),
      (amb_demo, Get_session (py ''u-0'')),
      (amb_demo, Predict farm_dry)]"




section \<open>Properties of the string helpers\<close>

lemma startswith_iff_prefix: "startswith s p \<longleftrightarrow> prefix p s"
proof
  assume "startswith s p"
  then have "s = p @ drop (length p) s"
    by (metis append_take_drop_id startswith_def)
  then show "prefix p s"
    by (metis prefixI)
next
  assume "prefix p s"
  then obtain zs where "s = p @ zs"
    by (auto simp: prefix_def)
  then show "startswith s p"
    by (simp add: startswith_def)
qed

lemma str_in_iff_sublist: "str_in w s \<longleftrightarrow> sublist w s"
  by (induction s) (auto simp: startswith_iff_prefix sublist_Cons_right)

section \<open>Properties of rounding\<close>

lemma round2_ge: "of_int n \<le> x \<Longrightarrow> of_int n \<le> round2 L k x"
  using Rep_rounder [of "rounding L"] by (simp add: round2_def)

lemma round2_le: "x \<le> of_int n \<Longrightarrow> round2 L k x \<le> of_int n"
  using Rep_rounder [of "rounding L"] by (simp add: round2_def)


lemma round_half_even_ge:
  assumes "of_int n \<le> x"
  shows "n \<le> round_half_even x"
proof -
  have "n \<le> \<lfloor>x\<rfloor>"
    using assms by (simp add: le_floor_iff)
  then show ?thesis
    by (auto simp: round_half_even_def Let_def)
qed

lemma round_half_even_le:
  assumes "x \<le> of_int n"
  shows "round_half_even x \<le> n"
proof (cases "x = of_int \<lfloor>x\<rfloor>")
  case True
  then have "round_half_even x = \<lfloor>x\<rfloor>"
    by (simp add: round_half_even_def Let_def)
  moreover have "\<lfloor>x\<rfloor> \<le> n"
    using assms by (simp add: floor_le_iff)
  ultimately show ?thesis by simp
next
  case False
  then have "of_int \<lfloor>x\<rfloor> < x"
    by (metis less_eq_real_def of_int_floor_le)
  then have "of_int \<lfloor>x\<rfloor> < (of_int n :: real)"
    using assms by linarith
  then have "\<lfloor>x\<rfloor> + 1 \<le> n"
    by simp
  then show ?thesis
    by (auto simp: round_half_even_def Let_def)
qed

lemma decimal_round2_ge:
  assumes "of_int n \<le> x"
  shows "of_int n \<le> decimal_round2 x"
proof -
  have "of_int (n * 100) \<le> x * 100"
    using assms by simp
  then have "n * 100 \<le> round_half_even (x * 100)"
    by (rule round_half_even_ge)
  then have "(of_int (n * 100) :: real) \<le> of_int (round_half_even (x * 100))"
    by (simp only: of_int_le_iff)
  then show ?thesis
    unfolding decimal_round2_def by simp
qed

lemma decimal_round2_le:
  assumes "x \<le> of_int n"
  shows "decimal_round2 x \<le> of_int n"
proof -
  have "x * 100 \<le> of_int (n * 100)"
    using assms by simp
  then have "round_half_even (x * 100) \<le> n * 100"
    by (rule round_half_even_le)
  then have "(of_int (round_half_even (x * 100)) :: real) \<le> of_int (n * 100)"
    by (simp only: of_int_le_iff)
  then show ?thesis
    unfolding decimal_round2_def by simp
qed

lemma round2_ascii_lib: "round2 ascii_lib k x = decimal_round2 x"
proof -
  have "(\<lambda>k. decimal_round2)
          \<in> {r :: float_kind \<Rightarrow> real \<Rightarrow> real.
               \<forall>k x n. (of_int n \<le> x \<longrightarrow> of_int n \<le> r k x)
                      \<and> (x \<le> of_int n \<longrightarrow> r k x \<le> of_int n)}"
    using decimal_round2_ge decimal_round2_le by simp
  then have "Rep_rounder decimal_rounder = (\<lambda>k. decimal_round2)"
    unfolding decimal_rounder_def by (rule Abs_rounder_inverse)
  then show ?thesis
    by (simp add: round2_def ascii_lib_def)
qed

section \<open>Properties of the LLM gateway wrapper\<close>

lemma py_append: "py (a @ b) = py a @ py b"
  by (simp add: py_def)

text \<open>
  Claim C5. Every call of \<open>send_message\<close> appends the user message to the history
  exactly once (followed by at most one assistant entry) and issues at most one POST.
  When a key is configured and the POST raises or answers with a status other than
  200, exactly one request has been issued (no retry), nothing but the user message
  has been appended, and the method returns an error string.
\<close>

theorem send_message_appends_once_posts_once:
  "length (posts (send_message post c m)) \<le> 1
   \<and> (history (chat (send_message post c m)) = history c @ [user_entry m]
      \<or> (\<exists>a. history (chat (send_message post c m))
               = history c @ [user_entry m, \<lparr>role = py ''assistant'', content = a\<rparr>]))
   \<and> (has_key c \<and> post (build_request (with_user c m)) = Raised e \<longrightarrow>
        posts (send_message post c m) = [build_request (with_user c m)]
      \<and> history (chat (send_message post c m)) = history c @ [user_entry m]
      \<and> returned (send_message post c m)
          = py ''Sorry, I am having trouble connecting to the server. Error: '' @ e)
   \<and> (has_key c \<and> post (build_request (with_user c m)) = Response code txt body
        \<and> code \<noteq> 200 \<longrightarrow>
        posts (send_message post c m) = [build_request (with_user c m)]
      \<and> history (chat (send_message post c m)) = history c @ [user_entry m]
      \<and> returned (send_message post c m)
          = py ''I encountered an error connecting to the AI service. Details: ''
            @ py ''API Error ('' @ str_int code @ py ''): '' @ txt)"
  by (auto simp: send_message_def Let_def on_exception_def user_entry_def with_user_def
        has_key_def split: http_outcome.splits sum.splits)

theorem send_message_appends_once_posts_once_witness:
  "has_key chat_demo
   \<and> post_503 (build_request (with_user chat_demo \<lparr>msg_text = py ''hi''\<rparr>))
       = Response 503 (py ''busy'') (Inl (py ''no json''))
   \<and> has_key chat_demo
   \<and> post_timeout (build_request (with_user chat_demo \<lparr>msg_text = py ''hi''\<rparr>))
       = Raised (py ''timed out'')
   \<and> posts (send_message post_503 chat_demo \<lparr>msg_text = py ''hi''\<rparr>)
       = [build_request (with_user chat_demo \<lparr>msg_text = py ''hi''\<rparr>)]
   \<and> returned (send_message post_503 chat_demo \<lparr>msg_text = py ''hi''\<rparr>)
       = py ''I encountered an error connecting to the AI service. Details: API Error (503): busy''
   \<and> returned (send_message post_timeout chat_demo \<lparr>msg_text = py ''hi''\<rparr>)
       = py ''Sorry, I am having trouble connecting to the server. Error: timed out''
   \<and> history (chat (send_message post_timeout chat_demo \<lparr>msg_text = py ''hi''\<rparr>))
       = [\<lparr>role = py ''system'', content = py ''be brief''\<rparr>,
          \<lparr>role = py ''user'', content = py ''hi''\<rparr>]"
proof -
  have k: "has_key chat_demo"
    by (simp add: has_key_def chat_demo_def with_model_def LlmChat_init_def py_def)
  have a: "post_503 (build_request (with_user chat_demo \<lparr>msg_text = py ''hi''\<rparr>))
             = Response 503 (py ''busy'') (Inl (py ''no json''))"
    by (simp add: post_503_def)
  have b: "post_timeout (build_request (with_user chat_demo \<lparr>msg_text = py ''hi''\<rparr>))
             = Raised (py ''timed out'')"
    by (simp add: post_timeout_def)
  have s: "str_int 503 = py ''503''"
    by (simp add: str_int_def py_def)
  have h: "history chat_demo = [\<lparr>role = py ''system'', content = py ''be brief''\<rparr>]"
    by (simp add: chat_demo_def with_model_def LlmChat_init_def)
  note t1 = send_message_appends_once_posts_once
              [of post_503 chat_demo "\<lparr>msg_text = py ''hi''\<rparr>" _ 503 "py ''busy''"
                  "Inl (py ''no json'')"]
  note t2 = send_message_appends_once_posts_once
              [of post_timeout chat_demo "\<lparr>msg_text = py ''hi''\<rparr>" "py ''timed out''"]
  from t1 k a have r1:
    "posts (send_message post_503 chat_demo \<lparr>msg_text = py ''hi''\<rparr>)
       = [build_request (with_user chat_demo \<lparr>msg_text = py ''hi''\<rparr>)]
     \<and> returned (send_message post_503 chat_demo \<lparr>msg_text = py ''hi''\<rparr>)
       = py ''I encountered an error connecting to the AI service. Details: ''
         @ py ''API Error ('' @ str_int 503 @ py ''): '' @ py ''busy''"
    by simp
  from t2 k b have r2:
    "returned (send_message post_timeout chat_demo \<lparr>msg_text = py ''hi''\<rparr>)
       = py ''Sorry, I am having trouble connecting to the server. Error: '' @ py ''timed out''
     \<and> history (chat (send_message post_timeout chat_demo \<lparr>msg_text = py ''hi''\<rparr>))
       = history chat_demo @ [user_entry \<lparr>msg_text = py ''hi''\<rparr>]"
    by simp
  show ?thesis
    using k a b r1 r2 by (simp add: s h user_entry_def py_append [symmetric])
qed

text \<open>
  Claim C6. When the API key is empty or is the placeholder \<open>your_key_here\<close>,
  \<open>send_message\<close> issues no HTTP request, returns the fixed mock response, and
  appends the user message and then the mock response to the history.
\<close>

theorem send_message_mock_without_key:
  assumes "api_key c = [] \<or> api_key c = py ''your_key_here''"
  shows "posts (send_message post c m) = []
       \<and> returned (send_message post c m) = mock_response
       \<and> history (chat (send_message post c m))
           = history c @ [\<lparr>role = py ''user'', content = msg_text m\<rparr>,
                          \<lparr>role = py ''assistant'', content = mock_response\<rparr>]"
  using assms by (auto simp: send_message_def Let_def)

theorem send_message_mock_without_key_witness:
  "(api_key chat_nokey = [] \<or> api_key chat_nokey = py ''your_key_here'')
   \<and> posts (send_message post_503 chat_nokey \<lparr>msg_text = py ''hi''\<rparr>) = []
   \<and> returned (send_message post_503 chat_nokey \<lparr>msg_text = py ''hi''\<rparr>) = mock_response
   \<and> history (chat (send_message post_503 chat_nokey \<lparr>msg_text = py ''hi''\<rparr>))
       = [\<lparr>role = py ''system'', content = py ''be brief''\<rparr>,
          \<lparr>role = py ''user'', content = py ''hi''\<rparr>,
          \<lparr>role = py ''assistant'', content = mock_response\<rparr>]"
proof -
  have k: "api_key chat_nokey = [] \<or> api_key chat_nokey = py ''your_key_here''"
    by (simp add: chat_nokey_def LlmChat_init_def)
  have h: "history chat_nokey = [\<lparr>role = py ''system'', content = py ''be brief''\<rparr>]"
    by (simp add: chat_nokey_def LlmChat_init_def)
  show ?thesis
    using k send_message_mock_without_key [OF k, of post_503 "\<lparr>msg_text = py ''hi''\<rparr>"]
    by (simp add: h)
qed

text \<open>
  Claim C10. \<open>send_message\<close> is not atomic on failure. With a key configured, when
  the POST of a first call raises or answers with a status other than 200, the
  history afterwards is the old history plus the user message, with no assistant
  entry; the request that the next call sends then carries the two user messages
  as consecutive entries of its conversation.
\<close>

theorem send_message_failure_keeps_user_message:
  assumes "has_key c"
    and "post_failed (post (build_request (with_user c m1)))"
  shows "history (chat (send_message post c m1)) = history c @ [user_entry m1]
       \<and> posts (send_message post (chat (send_message post c m1)) m2)
           = [build_request (with_user (with_user c m1) m2)]
       \<and> p_messages (json_body (build_request (with_user (with_user c m1) m2)))
           = history c @ [user_entry m1, user_entry m2]
       \<and> role (user_entry m1) = py ''user'' \<and> role (user_entry m2) = py ''user''"
proof -
  have c1: "chat (send_message post c m1) = with_user c m1"
    using assms
    by (auto simp: send_message_def Let_def on_exception_def user_entry_def with_user_def
          has_key_def post_failed_def split: http_outcome.splits sum.splits)
  have k1: "has_key (with_user c m1)"
    using assms(1) by (simp add: has_key_def with_user_def)
  have p2: "posts (send_message post (with_user c m1) m2)
              = [build_request (with_user (with_user c m1) m2)]"
    using k1
    by (auto simp: send_message_def Let_def on_exception_def user_entry_def with_user_def
          has_key_def split: http_outcome.splits sum.splits)
  have m: "p_messages (json_body (build_request (with_user (with_user c m1) m2)))
             = history c @ [user_entry m1, user_entry m2]"
    by (simp add: build_request_def Let_def with_user_def)
  show ?thesis
    using c1 p2 m by (simp add: with_user_def user_entry_def)
qed

theorem send_message_failure_keeps_user_message_witness:
  "has_key chat_demo
   \<and> post_failed (post_503 (build_request (with_user chat_demo \<lparr>msg_text = py ''one''\<rparr>)))
   \<and> history (chat (send_message post_503 chat_demo \<lparr>msg_text = py ''one''\<rparr>))
       = [\<lparr>role = py ''system'', content = py ''be brief''\<rparr>,
          \<lparr>role = py ''user'', content = py ''one''\<rparr>]
   \<and> p_messages (json_body (build_request
         (with_user (with_user chat_demo \<lparr>msg_text = py ''one''\<rparr>) \<lparr>msg_text = py ''two''\<rparr>)))
       = [\<lparr>role = py ''system'', content = py ''be brief''\<rparr>,
          \<lparr>role = py ''user'', content = py ''one''\<rparr>,
          \<lparr>role = py ''user'', content = py ''two''\<rparr>]"
proof -
  have k: "has_key chat_demo"
    by (simp add: has_key_def chat_demo_def with_model_def LlmChat_init_def py_def)
  have f: "post_failed (post_503 (build_request (with_user chat_demo \<lparr>msg_text = py ''one''\<rparr>)))"
    by (simp add: post_failed_def post_503_def)
  have h: "history chat_demo = [\<lparr>role = py ''system'', content = py ''be brief''\<rparr>]"
    by (simp add: chat_demo_def with_model_def LlmChat_init_def)
  show ?thesis
    using k f send_message_failure_keeps_user_message
                [of chat_demo post_503 "\<lparr>msg_text = py ''one''\<rparr>"
                    "\<lparr>msg_text = py ''two''\<rparr>", OF k f]
    by (simp add: h user_entry_def)
qed

section \<open>Properties of language detection\<close>

lemma hindi_word_loop_found:
  "hindi_word_loop ws t = (if \<exists>w\<in>set ws. sublist w t then py ''hi'' else py ''en'')"
  by (induction ws) (auto simp: str_in_iff_sublist)

lemma share_above_15: "0 < n \<Longrightarrow> (real k / real n > 0.15) \<longleftrightarrow> (15 * n < 100 * k)"
proof -
  assume n: "0 < n"
  have "(real k / real n > 0.15) \<longleftrightarrow> (0.15 * real n < real k)"
    using n by (simp add: pos_less_divide_eq)
  also have "\<dots> \<longleftrightarrow> (real (15 * n) < real (100 * k))"
    by (simp add: algebra_simps)
  also have "\<dots> \<longleftrightarrow> (15 * n < 100 * k)"
    by (simp only: of_nat_less_iff)
  finally show ?thesis .
qed

text \<open>
  Claim C4. \<open>detect_language\<close> returns one of \<open>en\<close>, \<open>hi\<close>, \<open>te\<close>: \<open>en\<close> for the
  empty string; \<open>te\<close> when more than 15 percent of the characters are Telugu code
  points (tested first); otherwise \<open>hi\<close> when more than 15 percent are Devanagari
  code points or one of the listed Romanized Hindi words occurs in the lower-cased
  text; and \<open>en\<close> in every other case.
\<close>

theorem detect_language_cases:
  "detect_language L t \<in> {py ''en'', py ''hi'', py ''te''}
   \<and> (t = [] \<longrightarrow> detect_language L t = py ''en'')
   \<and> (t \<noteq> [] \<and> 15 * length t < 100 * length (filter is_telugu t)
        \<longrightarrow> detect_language L t = py ''te'')
   \<and> (t \<noteq> [] \<and> \<not> 15 * length t < 100 * length (filter is_telugu t)
        \<and> (15 * length t < 100 * length (filter is_devanagari t)
           \<or> (\<exists>w\<in>set hindi_words. sublist w (str_lower L t)))
        \<longrightarrow> detect_language L t = py ''hi'')
   \<and> (t \<noteq> [] \<and> \<not> 15 * length t < 100 * length (filter is_telugu t)
        \<and> \<not> 15 * length t < 100 * length (filter is_devanagari t)
        \<and> \<not> (\<exists>w\<in>set hindi_words. sublist w (str_lower L t))
        \<longrightarrow> detect_language L t = py ''en'')"
proof (cases "t = []")
  case True
  then show ?thesis by (simp add: detect_language_def)
next
  case False
  then have n: "0 < length t" by simp
  have te: "(real (length (filter is_telugu t)) / real (length t) > 0.15)
              = (15 * length t < 100 * length (filter is_telugu t))"
    by (rule share_above_15 [OF n])
  have hi: "(real (length (filter is_devanagari t)) / real (length t) > 0.15)
              = (15 * length t < 100 * length (filter is_devanagari t))"
    by (rule share_above_15 [OF n])
  have d: "detect_language L t =
             (if 15 * length t < 100 * length (filter is_telugu t) then py ''te''
              else if 15 * length t < 100 * length (filter is_devanagari t) then py ''hi''
              else if \<exists>w\<in>set hindi_words. sublist w (str_lower L t) then py ''hi''
              else py ''en'')"
    unfolding detect_language_def Let_def te hi hindi_word_loop_found
    using False by simp
  show ?thesis
    unfolding d using False by auto
qed

lemma detect_language_kelvin:
  assumes "str_lower L [8490, 121, 97] = py ''kya''"
  shows "detect_language L [8490, 121, 97] = py ''hi''"
proof -
  have "\<exists>w\<in>set hindi_words. sublist w (str_lower L [8490, 121, 97])"
    unfolding assms by (simp add: hindi_words_def)
  moreover have "\<not> 15 * length [8490, 121, 97 :: nat]
                     < 100 * length (filter is_telugu [8490, 121, 97])"
    by (simp add: is_telugu_def)
  ultimately show ?thesis
    using hindi_word_loop_found [of hindi_words "str_lower L [8490, 121, 97]"]
    by (simp add: detect_language_def Let_def is_telugu_def is_devanagari_def)
qed

theorem detect_language_cases_witness:
  "detect_language ascii_lib [] = py ''en''
   \<and> detect_language ascii_lib (sample_telugu @ py ''rice crop'') = py ''te''
   \<and> detect_language ascii_lib sample_devanagari = py ''hi''
   \<and> detect_language ascii_lib (py ''Meri FASAL'') = py ''hi''
   \<and> detect_language ascii_lib (py ''rice crop'') = py ''en''"
proof -
  have a: "detect_language ascii_lib [] = py ''en''"
    using detect_language_cases [of ascii_lib "[]"] by simp
  have "sample_telugu @ py ''rice crop'' \<noteq> []
        \<and> 15 * length (sample_telugu @ py ''rice crop'')
            < 100 * length (filter is_telugu (sample_telugu @ py ''rice crop''))"
    by (simp add: sample_telugu_def py_def is_telugu_def)
  then have b: "detect_language ascii_lib (sample_telugu @ py ''rice crop'') = py ''te''"
    using detect_language_cases [of ascii_lib "sample_telugu @ py ''rice crop''"] by blast
  have "sample_devanagari \<noteq> []
        \<and> \<not> 15 * length sample_devanagari < 100 * length (filter is_telugu sample_devanagari)
        \<and> 15 * length sample_devanagari < 100 * length (filter is_devanagari sample_devanagari)"
    by (simp add: sample_devanagari_def is_telugu_def is_devanagari_def)
  then have c: "detect_language ascii_lib sample_devanagari = py ''hi''"
    using detect_language_cases [of ascii_lib sample_devanagari] by blast
  have "py ''Meri FASAL'' \<noteq> []
        \<and> \<not> 15 * length (py ''Meri FASAL'') < 100 * length (filter is_telugu (py ''Meri FASAL''))
        \<and> (\<exists>w\<in>set hindi_words. sublist w (str_lower ascii_lib (py ''Meri FASAL'')))"
    by (simp add: str_in_iff_sublist [symmetric] hindi_words_def py_def ascii_lib_def ascii_lower_def
          lower_cp_def startswith_def is_telugu_def)
  then have d: "detect_language ascii_lib (py ''Meri FASAL'') = py ''hi''"
    using detect_language_cases [of ascii_lib "py ''Meri FASAL''"] by blast
  have "py ''rice crop'' \<noteq> []
        \<and> \<not> 15 * length (py ''rice crop'') < 100 * length (filter is_telugu (py ''rice crop''))
        \<and> \<not> 15 * length (py ''rice crop'') < 100 * length (filter is_devanagari (py ''rice crop''))
        \<and> \<not> (\<exists>w\<in>set hindi_words. sublist w (str_lower ascii_lib (py ''rice crop'')))"
    by (simp add: str_in_iff_sublist [symmetric] hindi_words_def py_def ascii_lib_def ascii_lower_def
          lower_cp_def startswith_def is_telugu_def is_devanagari_def)
  then have e: "detect_language ascii_lib (py ''rice crop'') = py ''en''"
    using detect_language_cases [of ascii_lib "py ''rice crop''"] by blast
  show ?thesis
    using a b c d e by simp
qed
section \<open>Properties of the weather proxy\<close>

lemma sublist_skip_spaces:
  assumes "w \<noteq> []" and "\<not> P (hd w)" and "\<forall>x\<in>set a. P x" and "sublist w (a @ b)"
  shows "sublist w b"
  using assms(3,4)
proof (induction a)
  case Nil
  then show ?case by simp
next
  case (Cons x a)
  from assms(1) obtain y w' where w: "w = y # w'"
    by (cases w) auto
  have px: "P x"
    using Cons.prems(1) by simp
  have "\<not> prefix w (x # a @ b)"
    using px assms(2) w by auto
  then have "sublist w (a @ b)"
    using Cons.prems(2) by (simp add: sublist_Cons_right)
  moreover have "\<forall>x\<in>set a. P x"
    using Cons.prems(1) by simp
  ultimately show ?case
    by (rule Cons.IH [rotated])
qed

lemma sublist_dropWhile_iff:
  assumes "w \<noteq> []" and "\<not> P (hd w)"
  shows "sublist w (dropWhile P s) \<longleftrightarrow> sublist w s"
proof
  assume "sublist w (dropWhile P s)"
  moreover have "sublist (dropWhile P s) s"
    by (rule sublist_dropWhile)
  ultimately show "sublist w s"
    by (rule sublist_order.order_trans)
next
  assume a: "sublist w s"
  have "takeWhile P s @ dropWhile P s = s"
    by (rule takeWhile_dropWhile_id)
  with a have b: "sublist w (takeWhile P s @ dropWhile P s)"
    by (simp only:)
  have c: "\<forall>x\<in>set (takeWhile P s). P x"
    using set_takeWhileD by fast
  show "sublist w (dropWhile P s)"
    by (rule sublist_skip_spaces [OF assms c b])
qed

lemma sublist_py_strip:
  assumes "w \<noteq> []" and "\<not> py_isspace (hd w)" and "\<not> py_isspace (last w)"
  shows "sublist w (py_strip s) \<longleftrightarrow> sublist w s"
proof -
  have r: "rev w \<noteq> []" "\<not> py_isspace (hd (rev w))"
    using assms by (simp_all add: hd_rev)
  have "sublist w (py_strip s)
          \<longleftrightarrow> sublist (rev w) (dropWhile py_isspace (rev (dropWhile py_isspace s)))"
    unfolding py_strip_def by (rule sublist_rev_right)
  also have "\<dots> \<longleftrightarrow> sublist (rev w) (rev (dropWhile py_isspace s))"
    by (rule sublist_dropWhile_iff [of "rev w" py_isspace, OF r])
  also have "\<dots> \<longleftrightarrow> sublist w (dropWhile py_isspace s)"
    by (rule sublist_rev)
  also have "\<dots> \<longleftrightarrow> sublist w s"
    by (rule sublist_dropWhile_iff [of w py_isspace, OF assms(1,2)])
  finally show ?thesis .
qed

lemma first_match_find:
  "first_match tbl s = map_option snd (find (\<lambda>(k, v). sublist k s) tbl)"
  by (induction tbl) (auto simp: str_in_iff_sublist)

lemma first_match_strip:
  assumes "list_all (\<lambda>(k, v). trimmed k) tbl"
  shows "first_match tbl (py_strip s) = first_match tbl s"
  using assms
proof (induction tbl)
  case Nil
  then show ?case by simp
next
  case (Cons kv tbl)
  obtain k v where kv: "kv = (k, v)"
    by (cases kv)
  from Cons.prems kv have t: "trimmed k" and rest: "list_all (\<lambda>(k, v). trimmed k) tbl"
    by simp_all
  from t have "sublist k (py_strip s) \<longleftrightarrow> sublist k s"
    unfolding trimmed_def by (intro sublist_py_strip) simp_all
  then have "str_in k (py_strip s) \<longleftrightarrow> str_in k s"
    by (simp only: str_in_iff_sublist)
  then show ?case
    using Cons.IH [OF rest] kv by simp
qed

lemma district_keys_trimmed: "list_all (\<lambda>(k, v). trimmed k) DISTRICT_COORDS"
  by (simp add: DISTRICT_COORDS_def trimmed_def py_def py_isspace_def)

lemma state_keys_trimmed: "list_all (\<lambda>(k, v). trimmed k) INDIA_LOCATIONS"
  by (simp add: INDIA_LOCATIONS_def trimmed_def py_def py_isspace_def)

lemma get_coordinates_find:
  "get_coordinates L loc =
     (case find (\<lambda>(k, v). sublist k (str_lower L loc)) DISTRICT_COORDS of
        Some (k, c) \<Rightarrow> Some c
      | None \<Rightarrow>
          (case find (\<lambda>(k, v). sublist k (str_lower L loc)) INDIA_LOCATIONS of
             Some (k, d) \<Rightarrow> Some \<lparr>lat = lat d, lon = lon d\<rparr>
           | None \<Rightarrow> None))"
proof -
  have d: "first_match DISTRICT_COORDS (py_strip (str_lower L loc))
             = map_option snd (find (\<lambda>(k, v). sublist k (str_lower L loc)) DISTRICT_COORDS)"
    using first_match_strip [OF district_keys_trimmed, of "str_lower L loc"]
      first_match_find [of DISTRICT_COORDS "str_lower L loc"]
    by (simp only:)
  have s: "first_match INDIA_LOCATIONS (py_strip (str_lower L loc))
             = map_option snd (find (\<lambda>(k, v). sublist k (str_lower L loc)) INDIA_LOCATIONS)"
    using first_match_strip [OF state_keys_trimmed, of "str_lower L loc"]
      first_match_find [of INDIA_LOCATIONS "str_lower L loc"]
    by (simp only:)
  show ?thesis
    unfolding get_coordinates_def Let_def d s
    by (simp split: option.splits prod.splits)
qed

lemma error_flag_iff:
  "error (get_weather_advisory L api loc lang)
     \<longleftrightarrow> (get_coordinates L loc = None
          \<or> (\<exists>cds e. get_coordinates L loc = Some cds
                     \<and> get_weather_try api loc cds = Inl e))"
  by (cases "get_coordinates L loc")
     (auto simp: get_weather_advisory_def get_weather_def Let_def split: sum.splits)

text \<open>
  Claim C7. \<open>get_coordinates\<close> geocodes by substring match: it returns the
  coordinates of the first district of \<open>DISTRICT_COORDS\<close> whose name occurs in the
  lower-cased location, otherwise those of the first state of \<open>INDIA_LOCATIONS\<close>
  whose name occurs in it, otherwise \<open>None\<close>. \<open>get_weather_advisory\<close> answers with
  \<open>error\<close> true exactly when no coordinates are found or the fetch of the weather
  (the \<open>try\<close> block of \<open>get_weather\<close>) raises, and with \<open>error\<close> false otherwise.
\<close>

theorem weather_geocoding_and_error_flag:
  "get_coordinates L loc =
     (case find (\<lambda>(k, v). sublist k (str_lower L loc)) DISTRICT_COORDS of
        Some (k, c) \<Rightarrow> Some c
      | None \<Rightarrow>
          (case find (\<lambda>(k, v). sublist k (str_lower L loc)) INDIA_LOCATIONS of
             Some (k, d) \<Rightarrow> Some \<lparr>lat = lat d, lon = lon d\<rparr>
           | None \<Rightarrow> None))
   \<and> (error (get_weather_advisory L api loc lang)
        \<longleftrightarrow> (get_coordinates L loc = None
             \<or> (\<exists>cds e. get_coordinates L loc = Some cds
                        \<and> get_weather_try api loc cds = Inl e)))"
  using get_coordinates_find [of L loc] error_flag_iff [of L api loc lang]
  by (rule conjI)

lemma coordinates_guntur:
  "get_coordinates ascii_lib (py '' Guntur District '') = Some \<lparr>lat = 16.3067, lon = 80.4365\<rparr>"
  by (simp add: get_coordinates_def Let_def py_def ascii_lib_def ascii_lower_def lower_cp_def py_strip_def
        py_isspace_def DISTRICT_COORDS_def startswith_def)

lemma coordinates_kerala:
  "get_coordinates ascii_lib (py ''Kerala'') = Some \<lparr>lat = 8.5241, lon = 76.9366\<rparr>"
  by (simp add: get_coordinates_def Let_def py_def ascii_lib_def ascii_lower_def lower_cp_def py_strip_def
        py_isspace_def DISTRICT_COORDS_def INDIA_LOCATIONS_def startswith_def)

lemma coordinates_atlantis: "get_coordinates ascii_lib (py ''Atlantis'') = None"
  by (simp add: get_coordinates_def Let_def py_def ascii_lib_def ascii_lower_def lower_cp_def py_strip_def
        py_isspace_def DISTRICT_COORDS_def INDIA_LOCATIONS_def startswith_def)

text \<open>
  A location written with the Kelvin sign (code point 8490), which Python's
  \<open>str.lower\<close> turns into the letter k.
\<close>

lemma coordinates_kelvin:
  assumes "str_lower L [8490, 101, 114, 97, 108, 97] = py ''kerala''"
  shows "get_coordinates L [8490, 101, 114, 97, 108, 97] = Some \<lparr>lat = 8.5241, lon = 76.9366\<rparr>"
  unfolding get_coordinates_def assms
  by (simp add: Let_def py_def py_strip_def py_isspace_def DISTRICT_COORDS_def
        INDIA_LOCATIONS_def startswith_def)

lemma try_ok_kerala:
  "\<exists>info. get_weather_try api_ok (py ''Kerala'') \<lparr>lat = 8.5241, lon = 76.9366\<rparr> = Inr info"
  by (simp add: get_weather_try_def api_ok_def Let_def jget_def jget_default_def
        build_forecast_def generate_agri_advisory_def)

theorem weather_geocoding_and_error_flag_witness:
  "get_coordinates ascii_lib (py '' Guntur District '') = Some \<lparr>lat = 16.3067, lon = 80.4365\<rparr>
   \<and> get_coordinates ascii_lib (py ''Kerala'') = Some \<lparr>lat = 8.5241, lon = 76.9366\<rparr>
   \<and> error (get_weather_advisory ascii_lib api_ok (py ''Atlantis'') (py ''en''))
   \<and> error (get_weather_advisory ascii_lib api_down (py ''Kerala'') (py ''en''))
   \<and> \<not> error (get_weather_advisory ascii_lib api_ok (py ''Kerala'') (py ''hi''))"
proof -
  have a: "error (get_weather_advisory ascii_lib api_ok (py ''Atlantis'') (py ''en''))"
    using weather_geocoding_and_error_flag [of ascii_lib "py ''Atlantis''" api_ok "py ''en''"]
      coordinates_atlantis by simp
  have "get_weather_try api_down (py ''Kerala'') \<lparr>lat = 8.5241, lon = 76.9366\<rparr> = Inl HTTPError"
    by (simp add: get_weather_try_def api_down_def)
  then have b: "error (get_weather_advisory ascii_lib api_down (py ''Kerala'') (py ''en''))"
    using weather_geocoding_and_error_flag [of ascii_lib "py ''Kerala''" api_down "py ''en''"]
      coordinates_kerala by simp
  have c: "\<not> error (get_weather_advisory ascii_lib api_ok (py ''Kerala'') (py ''hi''))"
    using weather_geocoding_and_error_flag [of ascii_lib "py ''Kerala''" api_ok "py ''hi''"]
      coordinates_kerala try_ok_kerala by auto
  show ?thesis
    using a b c coordinates_guntur coordinates_kerala by simp
qed

section \<open>Properties of yield prediction\<close>

lemma risk_levels_distinct:
  "py ''High'' \<noteq> py ''Medium''" "py ''High'' \<noteq> py ''Low''" "py ''Medium'' \<noteq> py ''Low''"
  by (simp_all add: py_def)

lemma risk_score_sum:
  "fst (risk_assessment irrigation rainfall fertilizer)
     = (if irrigation < 40 then 2 else 0) + (if rainfall < 500 then 2 else 0)
       + (if rainfall > 1500 then 1 else 0) + (if fertilizer < 80 then 1 else 0)"
  by (simp add: risk_assessment_def Let_def)

lemma predict_risk_level:
  assumes "predict_yield_ml L re g fi = Inr p"
  shows "risk_level p = risk_level_of (fst (risk_assessment (effective_irrigation fi)
                           (effective_rainfall L fi) (effective_fertilizer fi)))"
  using assms
  by (auto simp: predict_yield_ml_def Let_def split: prod.splits sum.splits)

lemma predict_yield_ml_returns:
  assumes "g = None \<or> re (take 5 (get_state_from_location L (location fi))) \<noteq> None"
  shows "\<exists>p. predict_yield_ml L re g fi = Inr p"
  using assms
  by (auto simp: predict_yield_ml_def yield_averages_def Let_def split: prod.splits sum.splits option.splits)

text \<open>
  Claim C2. Whenever \<open>predict_yield_ml\<close> returns a prediction, its risk level follows
  the thresholds: the score is 2 for effective irrigation below 40, plus 2 for
  effective rainfall below 500, plus 1 for effective rainfall above 1500, plus 1 for
  effective fertilizer below 80; the level is High exactly for a score of at least 3,
  Medium exactly for 1 or 2, Low exactly for 0.
\<close>

theorem risk_level_thresholds:
  assumes "predict_yield_ml L re g fi = Inr p"
    and "score = (if effective_irrigation fi < 40 then 2 else 0)
               + (if effective_rainfall L fi < 500 then 2 else 0)
               + (if effective_rainfall L fi > 1500 then 1 else 0)
               + (if effective_fertilizer fi < 80 then (1::nat) else 0)"
  shows "(risk_level p = py ''High'' \<longleftrightarrow> score \<ge> 3)
       \<and> (risk_level p = py ''Medium'' \<longleftrightarrow> score = 1 \<or> score = 2)
       \<and> (risk_level p = py ''Low'' \<longleftrightarrow> score = 0)"
proof -
  have s: "fst (risk_assessment (effective_irrigation fi) (effective_rainfall L fi)
                  (effective_fertilizer fi)) = score"
    unfolding assms(2) by (rule risk_score_sum)
  have r: "risk_level p = risk_level_of score"
    using predict_risk_level [OF assms(1)] s by simp
  show ?thesis
    unfolding r risk_level_of_def using risk_levels_distinct by auto
qed

text \<open>
  A district written with the Kelvin sign (code point 8490), which Python's
  \<open>str.lower\<close> turns into the letter k: the default rainfall is Rajasthan's.
\<close>

lemma default_rainfall_kelvin:
  assumes "location fi = [98, 105, 8490, 97, 110, 101, 114]"
    and "str_lower L [98, 105, 8490, 97, 110, 101, 114] = py ''bikaner''"
    and "str_lower L (py ''rajasthan'') = py ''rajasthan''"
  shows "default_rainfall L fi = 350"
proof -
  have "get_state_from_location L (location fi) = py ''rajasthan''"
    unfolding get_state_from_location_def assms(1) assms(2)
    by (simp add: Let_def py_def district_state_map_def startswith_def)
  then show ?thesis
    unfolding default_rainfall_def get_state_info_def
    by (simp add: assms(3)) (simp add: py_def py_strip_def py_isspace_def STATE_AGRI_INFO_def)
qed

theorem risk_level_thresholds_witness:
  "\<not> isl (predict_yield_ml ascii_lib re_literal None farm_dry)
   \<and> effective_irrigation farm_dry < 40 \<and> effective_rainfall ascii_lib farm_dry < 500
   \<and> \<not> effective_rainfall ascii_lib farm_dry > 1500 \<and> \<not> effective_fertilizer farm_dry < 80
   \<and> risk_level (projr (predict_yield_ml ascii_lib re_literal None farm_dry)) = py ''High''"
proof -
  obtain p where p: "predict_yield_ml ascii_lib re_literal None farm_dry = Inr p"
    using predict_yield_ml_returns [where g = None and re = re_literal and L = ascii_lib and fi = farm_dry] by auto
  have e: "effective_irrigation farm_dry = 30" "effective_rainfall ascii_lib farm_dry = 400"
    "effective_fertilizer farm_dry = 100"
    by (simp_all add: effective_irrigation_def effective_rainfall_def effective_fertilizer_def
          farm_dry_def py_or_def)
  have s: "(4::nat) = (if effective_irrigation farm_dry < 40 then 2 else 0)
               + (if effective_rainfall ascii_lib farm_dry < 500 then 2 else 0)
               + (if effective_rainfall ascii_lib farm_dry > 1500 then 1 else 0)
               + (if effective_fertilizer farm_dry < 80 then (1::nat) else 0)"
    by (simp add: e)
  have "risk_level p = py ''High''"
    using risk_level_thresholds [OF p s] by simp
  then show ?thesis
    using p by (simp add: e)
qed

lemma crop_ranges_ok: "list_all (\<lambda>(k, ci). range_ok ci) CROP_KNOWLEDGE"
  by (simp add: CROP_KNOWLEDGE_def range_ok_def)

lemma get_crop_info_range:
  assumes "get_crop_info L c = Some ci"
  shows "range_ok ci"
proof -
  from assms have "(py_strip (str_lower L c), ci) \<in> set CROP_KNOWLEDGE"
    unfolding get_crop_info_def by (rule map_of_SomeD)
  then show ?thesis
    using crop_ranges_ok by (auto simp: list_all_iff)
qed

lemma knowledge_based_estimate_clamped:
  assumes "yr_min (yield_range_kg_ha ci) \<le> yr_max (yield_range_kg_ha ci)"
  shows "yr_min (yield_range_kg_ha ci) \<le> knowledge_based_estimate ci i r f
       \<and> knowledge_based_estimate ci i r f \<le> yr_max (yield_range_kg_ha ci)"
  using assms by (simp add: knowledge_based_estimate_def Let_def)

lemma predict_estimate:
  assumes "predict_yield_ml L re g fi = Inr p"
  shows "predicted_yield_kg_ha p
           = round2 L (snd (fst (estimate_yield L g fi))) (fst (fst (estimate_yield L g fi)))
       \<and> confidence_score p
           = round2 L (snd (snd (estimate_yield L g fi))) (fst (snd (estimate_yield L g fi)))"
  using assms
  by (auto simp: predict_yield_ml_def Let_def split: prod.splits sum.splits)

lemma predict_fallback_yield:
  assumes "ml_try L m fi = Inl e"
    and "get_crop_info L (crop_type fi) = Some ci"
    and "predict_yield_ml L re (Some m) fi = Inr p"
  shows "predicted_yield_kg_ha p
           = round2 L PyFloat (knowledge_based_estimate ci (effective_irrigation fi)
                                 (effective_rainfall L fi) (effective_fertilizer fi))"
  using predict_estimate [OF assms(3)] assms(1,2) by (simp add: estimate_yield_def)

text \<open>
  Claim C9. In the knowledge-based fallback (the model is loaded, the \<open>try\<close> block
  raises, and the crop has an entry), the returned \<open>predicted_yield_kg_ha\<close> lies
  between the minimum and the maximum of the crop's yield range, whatever the
  irrigation, rainfall and fertilizer.
\<close>

theorem fallback_yield_within_range:
  assumes "ml_try L m fi = Inl e"
    and "get_crop_info L (crop_type fi) = Some ci"
    and "predict_yield_ml L re (Some m) fi = Inr p"
  shows "yr_min (yield_range_kg_ha ci) \<le> predicted_yield_kg_ha p
       \<and> predicted_yield_kg_ha p \<le> yr_max (yield_range_kg_ha ci)"
proof -
  have ok: "range_ok ci"
    using assms(2) by (rule get_crop_info_range)
  then obtain lo hi where lo: "yr_min (yield_range_kg_ha ci) = of_int lo"
    and hi: "yr_max (yield_range_kg_ha ci) = of_int hi"
    unfolding range_ok_def by (auto elim!: Ints_cases)
  have c: "yr_min (yield_range_kg_ha ci)
                  \<le> knowledge_based_estimate ci (effective_irrigation fi)
                       (effective_rainfall L fi) (effective_fertilizer fi)
              \<and> knowledge_based_estimate ci (effective_irrigation fi)
                       (effective_rainfall L fi) (effective_fertilizer fi)
                  \<le> yr_max (yield_range_kg_ha ci)"
    using ok unfolding range_ok_def by (intro knowledge_based_estimate_clamped) simp
  show ?thesis
    unfolding predict_fallback_yield [OF assms]
    using c round2_ge [of lo _ L PyFloat] round2_le [of _ hi L PyFloat]
    by (simp add: lo hi)
qed

lemma rice_entry:
  "map_option yield_range_kg_ha (get_crop_info ascii_lib (py ''rice''))
     = Some \<lparr>yr_min = 2500, yr_max = 6500, yr_avg = 4000\<rparr>"
  by (simp add: get_crop_info_def CROP_KNOWLEDGE_def py_def ascii_lib_def ascii_lower_def
        lower_cp_def py_strip_def py_isspace_def)

text \<open>
  A crop written with the Kelvin sign (code point 8490), which Python's \<open>str.lower\<close>
  turns into the letter k: the entry found is okra's.
\<close>

lemma crop_info_kelvin:
  assumes "str_lower L [111, 8490, 114, 97] = py ''okra''"
  shows "map_option yield_range_kg_ha (get_crop_info L [111, 8490, 114, 97])
           = Some \<lparr>yr_min = 8000, yr_max = 15000, yr_avg = 10000\<rparr>"
  unfolding get_crop_info_def assms
  by (simp add: CROP_KNOWLEDGE_def py_def py_strip_def py_isspace_def)

lemma black_soil_raises: "ml_try ascii_lib artifacts_demo farm_black_soil = Inl ValueError"
  by (simp add: ml_try_def encode_crop_def encode_soil_def transform_def artifacts_demo_def
        farm_black_soil_def Let_def py_def ascii_lib_def ascii_lower_def lower_cp_def
        upper_cp_def is_cased_def py_strip_def py_isspace_def ascii_title_def)

theorem fallback_yield_within_range_witness:
  "ml_try ascii_lib artifacts_demo farm_black_soil = Inl ValueError
   \<and> map_option yield_range_kg_ha (get_crop_info ascii_lib (crop_type farm_black_soil))
       = Some \<lparr>yr_min = 2500, yr_max = 6500, yr_avg = 4000\<rparr>
   \<and> \<not> isl (predict_yield_ml ascii_lib re_literal (Some artifacts_demo) farm_black_soil)
   \<and> 2500 \<le> predicted_yield_kg_ha
               (projr (predict_yield_ml ascii_lib re_literal (Some artifacts_demo)
                         farm_black_soil))
   \<and> predicted_yield_kg_ha
        (projr (predict_yield_ml ascii_lib re_literal (Some artifacts_demo) farm_black_soil))
       \<le> 6500"
proof -
  obtain p where p: "predict_yield_ml ascii_lib re_literal (Some artifacts_demo) farm_black_soil
                       = Inr p"
    using predict_yield_ml_returns [where g = "Some artifacts_demo" and re = re_literal
            and L = ascii_lib and fi = farm_black_soil]
    by (auto simp: re_literal_def)
  have c: "crop_type farm_black_soil = py ''rice''"
    by (simp add: farm_black_soil_def)
  obtain ci where ci: "get_crop_info ascii_lib (crop_type farm_black_soil) = Some ci"
    and r: "yield_range_kg_ha ci = \<lparr>yr_min = 2500, yr_max = 6500, yr_avg = 4000\<rparr>"
    using rice_entry unfolding c by auto
  have "yr_min (yield_range_kg_ha ci) \<le> predicted_yield_kg_ha p
        \<and> predicted_yield_kg_ha p \<le> yr_max (yield_range_kg_ha ci)"
    using fallback_yield_within_range [OF black_soil_raises ci p] .
  then show ?thesis
    using p black_soil_raises rice_entry by (simp add: r c)
qed















section \<open>Properties of the session store\<close>

lemma db_after_sessions:
  "sessions (db_after L amb call db) =
     (case call of
        Create_session lang \<Rightarrow>
          if db_up amb then sessions db @ [cr_session (create_session amb lang db)]
          else sessions db
      | _ \<Rightarrow> sessions db)"
  by (simp add: db_after_def create_session_def store_chat_def Let_def
        split: api_call.splits option.splits)

lemma db_after_prefix: "prefix (sessions db) (sessions (db_after L amb call db))"
  by (simp add: db_after_sessions split: api_call.splits)

lemma run_prefix: "prefix (sessions db) (sessions (run L calls db))"
proof (induction calls arbitrary: db)
  case Nil
  then show ?case by simp
next
  case (Cons c calls)
  obtain amb call where c: "c = (amb, call)"
    by (cases c)
  have "prefix (sessions db) (sessions (db_after L amb call db))"
    by (rule db_after_prefix)
  moreover have "prefix (sessions (db_after L amb call db))
                   (sessions (run L calls (db_after L amb call db)))"
    by (rule Cons.IH)
  ultimately have "prefix (sessions db) (sessions (run L calls (db_after L amb call db)))"
    by (rule prefix_order.order_trans)
  then show ?case
    unfolding c by simp
qed

lemma prefix_nth: "prefix xs ys \<Longrightarrow> i < length xs \<Longrightarrow> ys ! i = xs ! i"
  by (auto simp: prefix_def nth_append)

text \<open>
  Claim C8. \<open>create_session\<close> sends a single \<open>insert_one\<close>, which appends the new
  session document (or, when the database does not answer, stores nothing) and
  leaves what is stored untouched. No other route changes the session collection,
  so after any sequence of calls every session document that was stored is still
  there, at its place, with all five fields as they were.
\<close>

theorem session_written_once_never_updated:
  "cr_issued (create_session amb lang db) = [Insert_one_session (cr_session (create_session amb lang db))]
   \<and> sessions (cr_db (create_session amb lang db))
       = (if db_up amb then sessions db @ [cr_session (create_session amb lang db)]
          else sessions db)
   \<and> messages (cr_db (create_session amb lang db)) = messages db
   \<and> ((\<forall>l. call \<noteq> Create_session l) \<longrightarrow> sessions (db_after L amb call db) = sessions db)
   \<and> prefix (sessions db) (sessions (run L calls db))
   \<and> (\<forall>i < length (sessions db). sessions (run L calls db) ! i = sessions db ! i)"
proof -
  have a: "cr_issued (create_session amb lang db)
             = [Insert_one_session (cr_session (create_session amb lang db))]"
    by (simp add: create_session_def Let_def)
  have b: "sessions (cr_db (create_session amb lang db))
             = (if db_up amb then sessions db @ [cr_session (create_session amb lang db)]
                else sessions db)"
    by (simp add: create_session_def Let_def)
  have c: "messages (cr_db (create_session amb lang db)) = messages db"
    by (simp add: create_session_def Let_def)
  have d: "(\<forall>l. call \<noteq> Create_session l) \<longrightarrow> sessions (db_after L amb call db) = sessions db"
    by (cases call) (simp_all add: db_after_sessions)
  have e: "prefix (sessions db) (sessions (run L calls db))"
    by (rule run_prefix)
  have f: "\<forall>i < length (sessions db). sessions (run L calls db) ! i = sessions db ! i"
    using prefix_nth [OF e] by blast
  show ?thesis
    using a b c d e f by (intro conjI)
qed

theorem session_written_once_never_updated_witness:
  "(\<forall>l. Predict farm_dry \<noteq> Create_session l)
   \<and> sessions (db_after ascii_lib amb_demo (Predict farm_dry) db_demo) = sessions db_demo
   \<and> (0::nat) < length (sessions db_demo)
   \<and> sessions (run ascii_lib calls_demo db_demo) ! 0
       = \<lparr>sess_id = py ''u-0'', sess_language = py ''te'', sess_farm_context = None,
          sess_created_at = 7, sess_updated_at = 7\<rparr>
   \<and> sessions (run ascii_lib calls_demo db_demo)
       = [\<lparr>sess_id = py ''u-0'', sess_language = py ''te'', sess_farm_context = None,
           sess_created_at = 7, sess_updated_at = 7\<rparr>,
          \<lparr>sess_id = py ''u-1'', sess_language = py ''hi'', sess_farm_context = None,
           sess_created_at = 100, sess_updated_at = 101\<rparr>]"
proof -
  note t = session_written_once_never_updated [where amb = amb_demo and lang = "py ''hi''"
             and db = db_demo and call = "Predict farm_dry" and calls = calls_demo
             and L = ascii_lib]
  have n: "\<forall>l. Predict farm_dry \<noteq> Create_session l"
    by simp
  have l: "(0::nat) < length (sessions db_demo)"
    by (simp add: db_demo_def)
  have s0: "sessions db_demo ! 0
              = \<lparr>sess_id = py ''u-0'', sess_language = py ''te'', sess_farm_context = None,
                 sess_created_at = 7, sess_updated_at = 7\<rparr>"
    by (simp add: db_demo_def)
  have r: "sessions (run ascii_lib calls_demo db_demo)
       = [\<lparr>sess_id = py ''u-0'', sess_language = py ''te'', sess_farm_context = None,
           sess_created_at = 7, sess_updated_at = 7\<rparr>,
          \<lparr>sess_id = py ''u-1'', sess_language = py ''hi'', sess_farm_context = None,
           sess_created_at = 100, sess_updated_at = 101\<rparr>]"
    by (simp add: calls_demo_def db_demo_def amb_demo_def db_after_def create_session_def
          store_chat_def Let_def)
  from t n have p: "sessions (db_after ascii_lib amb_demo (Predict farm_dry) db_demo) = sessions db_demo"
    by blast
  from t l have q: "sessions (run ascii_lib calls_demo db_demo) ! 0 = sessions db_demo ! 0"
    by blast
  show ?thesis
    using n p l q r by (simp add: s0)
qed

section \<open>Purity of yield prediction\<close>






















end
